theory Spec2Isabelle
  imports Main "HOL-Library.Sublist"
begin

text \<open>
  A model of the on-chain registration and badge issuance code of the skill-badge
  platform: the two HTTP operations of the backend and the services behind them, the
  Stellar SDK services with their confirmation loop and read-only queries, the badge
  metadata generator and the two upload paths of the frontend, and the retry action
  of the badges tab. Clock readings, random values and the answers of external
  services are inputs of the model; exceptions are values.
\<close>

section \<open>JavaScript values and primitives\<close>

text \<open>
  The backend reads \<^verbatim>\<open>req.body\<close>, which Express types as \<^verbatim>\<open>any\<close>, and the
  Stellar SDK's \<^verbatim>\<open>scValToNative\<close> returns untyped values too. Such dynamic values are
  modelled by \<open>jsval\<close>. A number \<open>JNum n\<close> stands for the JavaScript number \<open>n\<close> when
  \<open>n\<close> is an integer of magnitude below \<open>2^53\<close>, which a double holds exactly and
  prints as its decimal digits; larger and fractional numbers, \<^verbatim>\<open>NaN\<close> and the
  infinities are outside the model.
\<close>

datatype jsval =
    JUndefined
  | JNull
  | JBool bool
  | JNum int
  | JStr string
  | JArr "jsval list"
  | JObj "(string \<times> jsval) list"

text \<open>Truthiness, as tested by \<^verbatim>\<open>!x\<close>, \<^verbatim>\<open>x || y\<close> and \<^verbatim>\<open>x ? a : b\<close>.\<close>

fun truthy :: "jsval \<Rightarrow> bool" where
  "truthy JUndefined = False"
| "truthy JNull = False"
| "truthy (JBool b) = b"
| "truthy (JNum n) = (n \<noteq> 0)"
| "truthy (JStr s) = (s \<noteq> [])"
| "truthy (JArr xs) = True"
| "truthy (JObj kvs) = True"

text \<open>Decimal rendering of a non-negative integer, as a template literal prints it.\<close>

definition digit_char :: "nat \<Rightarrow> char" where
  "digit_char d = ''0123456789'' ! d"

function show_nat :: "nat \<Rightarrow> string" where
  "show_nat n = (if n < 10 then [digit_char n] else show_nat (n div 10) @ [digit_char (n mod 10)])"
  by pat_completeness auto
termination
  by (relation "measure (\<lambda>n. n)") auto

declare show_nat.simps [simp del]

definition show_int :: "int \<Rightarrow> string" where
  "show_int i = (if i < 0 then ''-'' @ show_nat (nat (- i)) else show_nat (nat i))"

text \<open>
  JavaScript prints an integer as its decimal digits when its magnitude is below
  \<open>2 ^ 53\<close>; from there on a number is a rounded double and prints otherwise. Where
  \<open>show_int\<close> stands for the printing of a JavaScript number, this is the range it is
  exact on.
\<close>

definition safe_integer :: "int \<Rightarrow> bool" where
  "safe_integer n \<longleftrightarrow> \<bar>n\<bar> < 2 ^ 53"

text \<open>
  String conversion of a value inside a template literal (\<^verbatim>\<open>`${x}`\<close>), which either
  throws a \<^verbatim>\<open>TypeError\<close> (\<open>Inl\<close> its message) or gives the text. An array joins its
  elements with commas (\<^verbatim>\<open>Array.prototype.join\<close>), printing \<^verbatim>\<open>null\<close> and
  \<^verbatim>\<open>undefined\<close> elements as the empty string and converting the others in turn. An
  object parsed from JSON prints as \<^verbatim>\<open>[object Object]\<close> through the inherited
  \<^verbatim>\<open>toString\<close>, unless it has a property \<^verbatim>\<open>toString\<close> of its own: that property
  is not a function, the inherited \<^verbatim>\<open>valueOf\<close> (or an own one, not a function either)
  gives no primitive, and the conversion throws. A number is printed by \<open>show_int\<close>,
  which is what JavaScript prints for a \<open>safe_integer\<close>.
\<close>

fun js_to_string :: "jsval \<Rightarrow> string + string"
  and join_elements :: "jsval list \<Rightarrow> string + string" where
  "js_to_string JUndefined = Inr ''undefined''"
| "js_to_string JNull = Inr ''null''"
| "js_to_string (JBool b) = Inr (if b then ''true'' else ''false'')"
| "js_to_string (JNum n) = Inr (show_int n)"
| "js_to_string (JStr s) = Inr s"
| "js_to_string (JArr xs) = join_elements xs"
| "js_to_string (JObj kvs) =
     (if ''toString'' \<in> set (map fst kvs)
      then Inl ''Cannot convert object to primitive value''
      else Inr ''[object Object]'')"
| "join_elements [] = Inr []"
| "join_elements (x # xs) =
     (case (if x = JUndefined \<or> x = JNull then Inr [] else js_to_string x) of
        Inl msg \<Rightarrow> Inl msg
      | Inr s \<Rightarrow>
          (if xs = [] then Inr s
           else (case join_elements xs of
                   Inl msg \<Rightarrow> Inl msg
                 | Inr r \<Rightarrow> Inr (s @ '','' @ r))))"

text \<open>
  The sources of nondeterminism a call reads: \<open>now1\<close>, \<open>now2\<close> are the first and the
  second reading of \<^verbatim>\<open>Date.now()\<close> the call takes, in program order, and \<open>rnd1\<close>,
  \<open>rnd2\<close> the first and second value of \<^verbatim>\<open>Math.random().toString(36)\<close>. A reading
  of the clock is a count of milliseconds, an integer far below \<open>2 ^ 53\<close>, which a
  template literal prints as its decimal digits (\<open>show_nat\<close>).
\<close>

record entropy =
  now1 :: nat
  now2 :: nat
  rnd1 :: string
  rnd2 :: string

text \<open>\<^verbatim>\<open>`sim_${Date.now()}_${Math.random().toString(36).substring(7)}`\<close>\<close>

definition sim_hash :: "nat \<Rightarrow> string \<Rightarrow> string" where
  "sim_hash now rnd = ''sim_'' @ show_nat now @ ''_'' @ drop 7 rnd"

section \<open>Result types (types/blockchain)\<close>

record test_metadata =
  testId :: jsval
  creator :: jsval
  metadataCid :: jsval
  createdAt :: jsval

record chain_result =
  success :: bool
  txHash :: string

record test_registration_result = chain_result +
  testMetadata :: test_metadata

record nft_mint_result = chain_result +
  tokenId :: jsval
  metadataUrl :: string

section \<open>registryService: simulated registration\<close>

text \<open>
  \<^verbatim>\<open>registerTestOnChain(testId, creator, metadataCid)\<close> of the registry service. No
  statement of its \<^verbatim>\<open>try\<close> block throws, so the rethrowing \<^verbatim>\<open>catch\<close> is never
  entered; the result type still has the error branch (\<open>Inl\<close> the message).
\<close>

definition registryService_registerTestOnChain ::
  "entropy \<Rightarrow> jsval \<Rightarrow> jsval \<Rightarrow> jsval \<Rightarrow> string + test_registration_result" where
  "registryService_registerTestOnChain e tid cr cid =
     (let txh = sim_hash (now1 e) (rnd1 e)
      in Inr \<lparr> success = True, txHash = txh,
               testMetadata = \<lparr> testId = tid, creator = cr, metadataCid = cid,
                                createdAt = JNum (int (now2 e)) \<rparr> \<rparr>)"

section \<open>nftService: simulated minting\<close>

text \<open>
  The storage service (\<^verbatim>\<open>generateBadgeMetadata\<close>, \<^verbatim>\<open>uploadBadgeMetadata\<close>) is imported
  by the NFT service but is not among the sources, so the pair of calls is a parameter:
  given \<open>testId\<close>, \<open>receiver\<close>, \<open>testTitle\<close>, \<open>score\<close> and \<open>totalScore\<close> it either
  throws (\<open>Inl\<close> the message) or returns the metadata URL.
\<close>

type_synonym storage_step =
  "jsval \<Rightarrow> jsval \<Rightarrow> jsval \<Rightarrow> jsval \<Rightarrow> jsval \<Rightarrow> string + string"

text \<open>
  \<^verbatim>\<open>mintBadgeNFT(receiver, testId, testTitle, score, totalScore)\<close> of the NFT service:
  metadata upload, then a token id \<^verbatim>\<open>`nft_${testId}_${Date.now()}`\<close> and a simulated
  transaction hash. Whatever the \<^verbatim>\<open>try\<close> block throws, the upload or the conversion
  of \<open>testId\<close> to a string in the template literal, is rethrown with the prefix
  \<^verbatim>\<open>NFT minting failed: \<close>.
\<close>

definition nftService_mintBadgeNFT ::
  "storage_step \<Rightarrow> entropy \<Rightarrow> jsval \<Rightarrow> jsval \<Rightarrow> jsval \<Rightarrow> jsval \<Rightarrow> jsval
     \<Rightarrow> string + nft_mint_result" where
  "nftService_mintBadgeNFT storage e receiver tid title score totalScore =
     (case storage tid receiver title score totalScore of
        Inl msg \<Rightarrow> Inl (''NFT minting failed: '' @ msg)
      | Inr url \<Rightarrow>
          (case js_to_string tid of
             Inl msg \<Rightarrow> Inl (''NFT minting failed: '' @ msg)
           | Inr t \<Rightarrow>
               (let tok = ''nft_'' @ t @ ''_'' @ show_nat (now1 e);
                    txh = sim_hash (now2 e) (rnd1 e)
                in Inr \<lparr> success = True, txHash = txh, tokenId = JStr tok,
                         metadataUrl = url \<rparr>)))"

section \<open>blockchainController: the two HTTP operations\<close>

text \<open>
  A response is its status code (\<^verbatim>\<open>res.json\<close> alone answers 200) and its JSON body:
  \<^verbatim>\<open>{error}\<close>, \<^verbatim>\<open>{error, details}\<close> or \<^verbatim>\<open>{success, message, data}\<close>.
\<close>

datatype 'a json_body =
    Error_only string
  | Error_details string string
  | Success_data bool string 'a

record 'a response =
  status :: nat
  body :: "'a json_body"

text \<open>
  \<^verbatim>\<open>req.body\<close> is the object the JSON body parser produced; a field the request does
  not carry reads as \<^verbatim>\<open>undefined\<close>. The service each handler imports is its first
  argument.
\<close>

type_synonym request_body = "string \<Rightarrow> jsval"

text \<open>The request body written as a JSON object literal.\<close>

definition body_of :: "(string \<times> jsval) list \<Rightarrow> request_body" where
  "body_of kvs k = (case map_of kvs k of None \<Rightarrow> JUndefined | Some v \<Rightarrow> v)"

definition registerTest ::
  "(jsval \<Rightarrow> jsval \<Rightarrow> jsval \<Rightarrow> string + 'r) \<Rightarrow> request_body \<Rightarrow> 'r response" where
  "registerTest registerTestOnChain b =
     (let tid = b ''testId''; cr = b ''creator''; cid = b ''metadataCid''
      in if \<not> truthy tid \<or> \<not> truthy cr \<or> \<not> truthy cid
         then \<lparr> status = 400,
                body = Error_only ''Missing required fields: testId, creator, metadataCid'' \<rparr>
         else (case registerTestOnChain tid cr cid of
                 Inr result \<Rightarrow>
                   \<lparr> status = 200,
                     body = Success_data True ''Test registered on blockchain'' result \<rparr>
               | Inl msg \<Rightarrow>
                   \<lparr> status = 500,
                     body = Error_details ''Failed to register test on blockchain'' msg \<rparr>))"

definition mintNFT ::
  "(jsval \<Rightarrow> jsval \<Rightarrow> jsval \<Rightarrow> jsval \<Rightarrow> jsval \<Rightarrow> string + 'r) \<Rightarrow> request_body
     \<Rightarrow> 'r response" where
  "mintNFT mintBadgeNFT b =
     (let receiver = b ''receiver''; tid = b ''testId''; title = b ''testTitle'';
          score = b ''score''; totalScore = b ''totalScore''
      in if \<not> truthy receiver \<or> \<not> truthy tid
         then \<lparr> status = 400, body = Error_only ''Missing required fields: receiver, testId'' \<rparr>
         else (case mintBadgeNFT receiver tid title score totalScore of
                 Inr result \<Rightarrow>
                   \<lparr> status = 200,
                     body = Success_data True ''NFT badge minted successfully'' result \<rparr>
               | Inl msg \<Rightarrow>
                   \<lparr> status = 500, body = Error_details ''Failed to mint NFT badge'' msg \<rparr>))"

text \<open>The two routes as the backend links them.\<close>

definition register_test_route :: "entropy \<Rightarrow> request_body \<Rightarrow> test_registration_result response" where
  "register_test_route e = registerTest (registryService_registerTestOnChain e)"

definition mint_nft_route :: "storage_step \<Rightarrow> entropy \<Rightarrow> request_body \<Rightarrow> nft_mint_result response" where
  "mint_nft_route storage e = mintNFT (nftService_mintBadgeNFT storage e)"

text \<open>The \<^verbatim>\<open>data\<close> a response carries, if any.\<close>

definition data_of :: "'a response \<Rightarrow> 'a option" where
  "data_of r = (case body r of Success_data s m d \<Rightarrow> Some d | _ \<Rightarrow> None)"

text \<open>
  A field is \<^emph>\<open>missing\<close> when the request does not carry it or carries nothing in it:
  absent (\<^verbatim>\<open>undefined\<close>), \<^verbatim>\<open>null\<close> or the empty string, and for a field that is not a
  string the other values the handlers' test \<^verbatim>\<open>!field\<close> rejects, \<^verbatim>\<open>0\<close> and \<^verbatim>\<open>false\<close>.
\<close>

definition missing :: "jsval \<Rightarrow> bool" where
  "missing v \<longleftrightarrow> v = JUndefined \<or> v = JNull \<or> v = JStr [] \<or> v = JNum 0 \<or> v = JBool False"

section \<open>BadgesTab: the retry action\<close>

text \<open>A row of the \<^verbatim>\<open>badges\<close> table; the three chain columns are nullable.\<close>

record badge =
  badge_id :: string
  test_id :: string
  wallet_address :: string
  nft_token_id :: jsval
  mint_tx_hash :: jsval
  metadata_url :: jsval

text \<open>
  \<^verbatim>\<open>supabase.from('badges').update(fields).eq('id', id)\<close>: the rows whose id matches get
  the new fields, no row is added or removed.
\<close>

definition update_badges_eq_id :: "string \<Rightarrow> (badge \<Rightarrow> badge) \<Rightarrow> badge list \<Rightarrow> badge list" where
  "update_badges_eq_id bid f rows = map (\<lambda>r. if badge_id r = bid then f r else r) rows"

text \<open>
  \<^verbatim>\<open>retryMintNFT(badge)\<close>. The helper \<^verbatim>\<open>mintNFTViaBackend\<close> (the HTTP call to the
  mint-nft operation) is not among the sources and is a parameter: it throws (\<open>Inl\<close>
  the message) or returns the \<^verbatim>\<open>data\<close> of the response. \<open>updateError\<close> is the error
  the table update reports, if any; \<open>title\<close> is \<^verbatim>\<open>badge.test?.title\<close>, replaced by
  \<^verbatim>\<open>'Achievement Badge'\<close> when absent or empty. The result is the table afterwards and
  the text of the alert shown. The token id is printed in a template literal after
  the table update; if that conversion throws, the row stays updated and the alert is
  the one of the \<^verbatim>\<open>catch\<close> block.
\<close>

definition retry_title :: "string option \<Rightarrow> string" where
  "retry_title title =
     (case title of None \<Rightarrow> ''Achievement Badge''
      | Some t \<Rightarrow> if t = [] then ''Achievement Badge'' else t)"

definition retryMintNFT ::
  "(string \<Rightarrow> string \<Rightarrow> string \<Rightarrow> int \<Rightarrow> int \<Rightarrow> string + nft_mint_result) \<Rightarrow> string option
     \<Rightarrow> string \<Rightarrow> string option \<Rightarrow> badge \<Rightarrow> badge list \<Rightarrow> badge list \<times> string" where
  "retryMintNFT mintNFTViaBackend updateError walletAddress title bdg rows =
     (let failed = (\<lambda>msg. ''Failed to mint NFT: '' @ (if msg = [] then ''Unknown error'' else msg))
      in case mintNFTViaBackend walletAddress (test_id bdg) (retry_title title) 0 0 of
           Inl msg \<Rightarrow> (rows, failed msg)
         | Inr d \<Rightarrow>
             (case updateError of
                Some msg \<Rightarrow> (rows, failed msg)
              | None \<Rightarrow>
                  (update_badges_eq_id (badge_id bdg)
                     (\<lambda>r. r\<lparr> nft_token_id := tokenId d, mint_tx_hash := JStr (txHash d),
                             metadata_url := JStr (metadataUrl d) \<rparr>) rows,
                   (case js_to_string (tokenId d) of
                      Inl msg \<Rightarrow> failed msg
                    | Inr t \<Rightarrow> ''NFT Badge minted successfully! Token ID: '' @ t))))"

section \<open>Effects of the Stellar SDK services\<close>

text \<open>
  The two SDK services talk to a Soroban RPC server, wait, and write to the console.
  A run is modelled by the list of its effects, in order, together with what it
  returns or throws (\<open>Inl\<close> the message of the error). Calls of \<^verbatim>\<open>console.log\<close> are
  not recorded; \<^verbatim>\<open>console.warn\<close> and \<^verbatim>\<open>console.error\<close> are, by their fixed text.
\<close>

datatype event =
    Rpc string
  | Sleep nat
  | Console_warn string
  | Console_error string

type_synonym 'a eff = "event list \<times> (string + 'a)"

definition return_eff :: "'a \<Rightarrow> 'a eff" where
  "return_eff x = ([], Inr x)"

definition throw_eff :: "string \<Rightarrow> 'a eff" where
  "throw_eff msg = ([], Inl msg)"

definition bind_eff :: "'a eff \<Rightarrow> ('a \<Rightarrow> 'b eff) \<Rightarrow> 'b eff" where
  "bind_eff m f =
     (case m of
        (tr, Inl msg) \<Rightarrow> (tr, Inl msg)
      | (tr, Inr x) \<Rightarrow> (case f x of (tr', r) \<Rightarrow> (tr @ tr', r)))"

text \<open>\<^verbatim>\<open>try { body } catch (error) { handler(error.message) }\<close>\<close>

definition try_catch :: "'a eff \<Rightarrow> (string \<Rightarrow> 'a eff) \<Rightarrow> 'a eff" where
  "try_catch m handler =
     (case m of
        (tr, Inl msg) \<Rightarrow> (case handler msg of (tr', r) \<Rightarrow> (tr @ tr', r))
      | (tr, Inr x) \<Rightarrow> (tr, Inr x))"

text \<open>An awaited call of the RPC server: the call is an effect, its outcome is given.\<close>

definition rpc :: "string \<Rightarrow> string + 'a \<Rightarrow> 'a eff" where
  "rpc name outcome = ([Rpc name], outcome)"

text \<open>A computation of the SDK that contacts nobody but may throw.\<close>

definition local_step :: "string option \<Rightarrow> unit eff" where
  "local_step err = (case err of None \<Rightarrow> return_eff () | Some msg \<Rightarrow> throw_eff msg)"

definition effect :: "event \<Rightarrow> unit eff" where
  "effect ev = ([ev], Inr ())"

text \<open>
  What the SDK and the server behind it answer during one run. An \<open>scval\<close> is a
  contract value, represented by what \<^verbatim>\<open>scValToNative\<close> does with it: throw, or return
  a native value. \<open>getTransaction sdk n\<close> answers the \<open>n\<close>-th call (from 0) of
  \<^verbatim>\<open>server.getTransaction\<close>.
\<close>

type_synonym scval = "string + jsval"

datatype sim_response =
    SimulationError string
  | SimulationOk "scval option"

record send_response =
  send_status :: string
  send_hash :: string
  errorResult :: string

record tx_response =
  tx_status :: string
  resultMetaXdr :: bool
  returnValue :: "scval option"

record sdk =
  contract_error :: "string option"
  getAccount :: "string + unit"
  build_error :: "string option"
  simulateTransaction :: "string + sim_response"
  assemble_error :: "string option"
  sendTransaction :: "string + send_response"
  getTransaction :: "nat \<Rightarrow> string + tx_response"

type_synonym keypair = string

definition maxAttempts :: nat where
  "maxAttempts = 30"

text \<open>
  The confirmation loop, the same text in both services:
  \<^verbatim>\<open>while (status === 'PENDING' && attempts < maxAttempts) { await sleep(1000);
  status = (await server.getTransaction(txHash)).status; attempts++ }\<close>.
  It returns the last status and the number of attempts, or throws what
  \<^verbatim>\<open>getTransaction\<close> throws.
\<close>

function poll :: "(nat \<Rightarrow> string + tx_response) \<Rightarrow> string \<Rightarrow> nat \<Rightarrow> (string \<times> nat) eff" where
  "poll getTx st attempts =
     (if st = ''PENDING'' \<and> attempts < maxAttempts
      then bind_eff (effect (Sleep 1000)) (\<lambda>_.
           bind_eff (rpc ''getTransaction'' (getTx attempts)) (\<lambda>statusResponse.
           poll getTx (tx_status statusResponse) (attempts + 1)))
      else return_eff (st, attempts))"
  by pat_completeness auto
termination
  by (relation "measure (\<lambda>(getTx, st, attempts). maxAttempts - attempts)") auto

declare poll.simps [simp del]

text \<open>
  The steps both services share, from loading the account to the end of the
  confirmation loop: it returns the response of \<^verbatim>\<open>sendTransaction\<close> and the number
  of polls made, once the status is \<^verbatim>\<open>SUCCESS\<close>.
\<close>

definition submit_and_confirm :: "sdk \<Rightarrow> (send_response \<times> nat) eff" where
  "submit_and_confirm s =
     bind_eff (local_step (contract_error s)) (\<lambda>_.
     bind_eff (rpc ''getAccount'' (getAccount s)) (\<lambda>sourceAccount.
     bind_eff (local_step (build_error s)) (\<lambda>_.
     bind_eff (rpc ''simulateTransaction'' (simulateTransaction s)) (\<lambda>simulated.
     bind_eff (case simulated of
                 SimulationError err \<Rightarrow> throw_eff (''Simulation failed: '' @ err)
               | SimulationOk res \<Rightarrow> return_eff ()) (\<lambda>_.
     bind_eff (local_step (assemble_error s)) (\<lambda>_.
     bind_eff (rpc ''sendTransaction'' (sendTransaction s)) (\<lambda>txResponse.
     bind_eff (if send_status txResponse = ''ERROR''
               then throw_eff (''Transaction failed: '' @ errorResult txResponse)
               else return_eff ()) (\<lambda>_.
     bind_eff (poll (getTransaction s) (send_status txResponse) 0) (\<lambda>(st, attempts).
       if st \<noteq> ''SUCCESS''
       then throw_eff (''Transaction failed with status: '' @ st)
       else return_eff (txResponse, attempts))))))))))"

section \<open>badgeNFTService: minting through the SDK\<close>

text \<open>The token id used when the transaction result yields none.\<close>

definition placeholder_token :: "string \<Rightarrow> nat \<Rightarrow> string" where
  "placeholder_token tid now = ''nft_'' @ tid @ ''_'' @ show_nat now"

text \<open>
  After confirmation the service fetches the transaction once more and reads the token
  id from its return value; if \<^verbatim>\<open>scValToNative\<close> throws, the inner \<^verbatim>\<open>catch\<close> warns
  and the generated id stays.
\<close>

definition extract_token :: "tx_response \<Rightarrow> string \<Rightarrow> jsval eff" where
  "extract_token txResult generated =
     (if tx_status txResult = ''SUCCESS'' \<and> resultMetaXdr txResult
      then (case returnValue txResult of
              None \<Rightarrow> return_eff (JStr generated)
            | Some (Inr v) \<Rightarrow> return_eff v
            | Some (Inl msg) \<Rightarrow>
                bind_eff (effect (Console_warn ''Could not parse token ID from result, using generated ID''))
                  (\<lambda>_. return_eff (JStr generated)))
      else return_eff (JStr generated))"

definition badgeNFTService_mintBadgeNFT ::
  "sdk \<Rightarrow> entropy \<Rightarrow> string \<Rightarrow> string \<Rightarrow> string \<Rightarrow> keypair option \<Rightarrow> nft_mint_result eff" where
  "badgeNFTService_mintBadgeNFT s e receiver tid metadataUri signerKeypair =
     try_catch
       (case signerKeypair of
          None \<Rightarrow>
            (let tok = ''nft_'' @ show_nat (now1 e) @ ''_'' @ drop 7 (rnd1 e);
                 txh = sim_hash (now2 e) (rnd2 e)
             in return_eff \<lparr> success = True, txHash = txh, tokenId = JStr tok,
                              metadataUrl = metadataUri \<rparr>)
        | Some kp \<Rightarrow>
            bind_eff (submit_and_confirm s) (\<lambda>(txResponse, attempts).
            bind_eff (rpc ''getTransaction'' (getTransaction s attempts)) (\<lambda>txResult.
            bind_eff (extract_token txResult (placeholder_token tid (now1 e))) (\<lambda>tok.
              return_eff \<lparr> success = True, txHash = send_hash txResponse, tokenId = tok,
                             metadataUrl = metadataUri \<rparr>))))
       (\<lambda>msg. bind_eff (effect (Console_error ''Error minting badge NFT:''))
                (\<lambda>_. throw_eff (''NFT minting failed: '' @ msg)))"

section \<open>testRegistryService: registration and queries through the SDK\<close>

definition testRegistryService_registerTestOnChain ::
  "sdk \<Rightarrow> entropy \<Rightarrow> string \<Rightarrow> string \<Rightarrow> string \<Rightarrow> keypair option
     \<Rightarrow> test_registration_result eff" where
  "testRegistryService_registerTestOnChain s e tid cr cid signerKeypair =
     try_catch
       (case signerKeypair of
          None \<Rightarrow>
            (let txh = sim_hash (now1 e) (rnd1 e)
             in return_eff \<lparr> success = True, txHash = txh,
                  testMetadata = \<lparr> testId = JStr tid, creator = JStr cr, metadataCid = JStr cid,
                                   createdAt = JNum (int (now2 e)) \<rparr> \<rparr>)
        | Some kp \<Rightarrow>
            bind_eff (submit_and_confirm s) (\<lambda>(txResponse, attempts).
              return_eff \<lparr> success = True, txHash = send_hash txResponse,
                  testMetadata = \<lparr> testId = JStr tid, creator = JStr cr, metadataCid = JStr cid,
                                   createdAt = JNum (int (now1 e)) \<rparr> \<rparr>))
       (\<lambda>msg. bind_eff (effect (Console_error ''Error registering test on-chain:''))
                (\<lambda>_. throw_eff (''Blockchain registration failed: '' @ msg)))"

text \<open>
  Property access \<^verbatim>\<open>x.name\<close>: a \<^verbatim>\<open>TypeError\<close> on \<^verbatim>\<open>null\<close> and \<^verbatim>\<open>undefined\<close>, the
  field of an object, and \<^verbatim>\<open>undefined\<close> for a field the value does not have.
\<close>

definition get_prop :: "jsval \<Rightarrow> string \<Rightarrow> string + jsval" where
  "get_prop x name =
     (case x of
        JUndefined \<Rightarrow> Inl (''Cannot read properties of undefined (reading '' @ name @ '')'')
      | JNull \<Rightarrow> Inl (''Cannot read properties of null (reading '' @ name @ '')'')
      | JObj kvs \<Rightarrow> Inr (case map_of kvs name of None \<Rightarrow> JUndefined | Some v \<Rightarrow> v)
      | _ \<Rightarrow> Inr JUndefined)"

text \<open>The object literal both queries build from a decoded entry.\<close>

definition to_test_metadata :: "jsval \<Rightarrow> test_metadata eff" where
  "to_test_metadata item =
     bind_eff ([], get_prop item ''test_id'') (\<lambda>a.
     bind_eff ([], get_prop item ''creator'') (\<lambda>b.
     bind_eff ([], get_prop item ''metadata_cid'') (\<lambda>c.
     bind_eff ([], get_prop item ''created_at'') (\<lambda>d.
       return_eff \<lparr> testId = a, creator = b, metadataCid = c, createdAt = d \<rparr>))))"

text \<open>\<^verbatim>\<open>result.map(item => ...)\<close>, where the callback may throw.\<close>

fun map_eff :: "('a \<Rightarrow> 'b eff) \<Rightarrow> 'a list \<Rightarrow> 'b list eff" where
  "map_eff f [] = return_eff []"
| "map_eff f (x # xs) =
     bind_eff (f x) (\<lambda>y. bind_eff (map_eff f xs) (\<lambda>ys. return_eff (y # ys)))"

text \<open>
  The steps the three read-only queries share: a simulation against a random account
  (a failure of \<^verbatim>\<open>getAccount\<close> is replaced by a dummy account), never submitted. It
  returns the decoded return value, or \<open>None\<close> where the query returns its default
  early (simulation error, or no result).
\<close>

definition simulate_read :: "sdk \<Rightarrow> jsval option eff" where
  "simulate_read s =
     bind_eff (local_step (contract_error s)) (\<lambda>_.
     bind_eff (try_catch (rpc ''getAccount'' (getAccount s)) (\<lambda>msg. return_eff ())) (\<lambda>account.
     bind_eff (local_step (build_error s)) (\<lambda>_.
     bind_eff (rpc ''simulateTransaction'' (simulateTransaction s)) (\<lambda>simulated.
       case simulated of
         SimulationError err \<Rightarrow> return_eff None
       | SimulationOk None \<Rightarrow> return_eff None
       | SimulationOk (Some retval) \<Rightarrow>
           bind_eff ([], retval) (\<lambda>v. return_eff (Some v))))))"

definition getTestFromChain :: "sdk \<Rightarrow> string \<Rightarrow> test_metadata option eff" where
  "getTestFromChain s tid =
     try_catch
       (bind_eff (simulate_read s) (\<lambda>decoded.
          case decoded of
            None \<Rightarrow> return_eff None
          | Some result \<Rightarrow>
              if truthy result
              then bind_eff (to_test_metadata result) (\<lambda>m. return_eff (Some m))
              else return_eff None))
       (\<lambda>msg. bind_eff (effect (Console_error ''Error getting test from chain:''))
                (\<lambda>_. return_eff None))"

definition listTestsFromChain :: "sdk \<Rightarrow> test_metadata list eff" where
  "listTestsFromChain s =
     try_catch
       (bind_eff (simulate_read s) (\<lambda>decoded.
          case decoded of
            None \<Rightarrow> return_eff []
          | Some (JArr items) \<Rightarrow> map_eff to_test_metadata items
          | Some other \<Rightarrow> return_eff []))
       (\<lambda>msg. bind_eff (effect (Console_error ''Error listing tests from chain:''))
                (\<lambda>_. return_eff []))"

definition getNFTMetadata :: "sdk \<Rightarrow> string \<Rightarrow> jsval eff" where
  "getNFTMetadata s tok =
     try_catch
       (bind_eff (simulate_read s) (\<lambda>decoded.
          case decoded of
            None \<Rightarrow> return_eff JNull
          | Some result \<Rightarrow> return_eff result))
       (\<lambda>msg. bind_eff (effect (Console_error ''Error getting NFT metadata:''))
                (\<lambda>_. return_eff JNull))"

section \<open>Measures and conditions on a run\<close>

text \<open>The number of \<^verbatim>\<open>getTransaction\<close> calls in a run, and the time it spends asleep.\<close>

definition polls :: "event list \<Rightarrow> nat" where
  "polls tr = length (filter (\<lambda>ev. ev = Rpc ''getTransaction'') tr)"

definition slept_ms :: "event list \<Rightarrow> nat" where
  "slept_ms tr = sum_list (map (\<lambda>ev. case ev of Sleep ms \<Rightarrow> ms | _ \<Rightarrow> 0) tr)"

text \<open>The \<open>i\<close>-th call of \<^verbatim>\<open>getTransaction\<close> answers with status \<^verbatim>\<open>PENDING\<close>.\<close>

definition pending_at :: "(nat \<Rightarrow> string + tx_response) \<Rightarrow> nat \<Rightarrow> bool" where
  "pending_at g i = (case g i of Inr r \<Rightarrow> tx_status r = ''PENDING'' | Inl msg \<Rightarrow> False)"

text \<open>
  Every step up to \<^verbatim>\<open>sendTransaction\<close> succeeds and the server accepts the
  transaction with the status \<open>st\<close> and the hash \<open>h\<close>.
\<close>

definition accepted :: "sdk \<Rightarrow> string \<Rightarrow> string \<Rightarrow> bool" where
  "accepted s st h \<longleftrightarrow>
     contract_error s = None \<and> getAccount s = Inr () \<and> build_error s = None \<and>
     (case simulateTransaction s of Inr (SimulationOk res) \<Rightarrow> True | _ \<Rightarrow> False) \<and>
     assemble_error s = None \<and>
     (case sendTransaction s of
        Inr resp \<Rightarrow> send_status resp = st \<and> send_hash resp = h \<and> st \<noteq> ''ERROR''
      | Inl msg \<Rightarrow> False)"

text \<open>
  A read-only query fails inside: the SDK throws while building the call, the
  simulation request throws, the simulation reports an error, it carries no result,
  or decoding its return value throws.
\<close>

definition read_fails :: "sdk \<Rightarrow> bool" where
  "read_fails s \<longleftrightarrow>
     contract_error s \<noteq> None \<or> build_error s \<noteq> None \<or>
     (case simulateTransaction s of
        Inl msg \<Rightarrow> True
      | Inr (SimulationError err) \<Rightarrow> True
      | Inr (SimulationOk None) \<Rightarrow> True
      | Inr (SimulationOk (Some (Inl msg))) \<Rightarrow> True
      | Inr (SimulationOk (Some (Inr v))) \<Rightarrow> False)"

section \<open>JavaScript number arithmetic on integer scores\<close>

text \<open>
  \<^verbatim>\<open>score\<close> and \<^verbatim>\<open>totalScore\<close> are numbers; the model takes them to be integers of
  magnitude below \<open>2^53\<close> (\<open>safe_integer\<close>), which JavaScript holds exactly, and the
  statements about their printing and their quotient assume as much. The percentage
  \<^verbatim>\<open>((score/totalScore) * 100).toFixed(2)\<close> is computed in double precision: each of the
  two operations rounds its exact result to the nearest number with a 53-bit
  significand, ties to the even one. A non-negative double is represented by a pair
  \<open>(m, e)\<close> standing for \<open>m * 2^e\<close>; the sign is handled apart, since rounding is
  symmetric. Exponents stay far from the limits of the format for such operands.
\<close>

function bit_length :: "nat \<Rightarrow> nat" where
  "bit_length n = (if n = 0 then 0 else Suc (bit_length (n div 2)))"
  by pat_completeness auto
termination
  by (relation "measure (\<lambda>n. n)") auto

declare bit_length.simps [simp del]

text \<open>The integer nearest to \<open>n / d\<close>, the even one of two equally near.\<close>

definition round_nearest_even :: "nat \<Rightarrow> nat \<Rightarrow> nat" where
  "round_nearest_even n d =
     (let q = n div d; r = n mod d
      in if 2 * r < d then q else if d < 2 * r then q + 1 else if even q then q else q + 1)"

text \<open>
  The double nearest to \<open>(n / d) * 2^s\<close>: the exponent \<open>e\<close> is chosen so that
  \<open>2^52 \<le> (n / d) / 2^e < 2^53\<close>, and the scaled quotient is rounded to an integer.
\<close>

definition to_double :: "nat \<Rightarrow> nat \<Rightarrow> int \<Rightarrow> nat \<times> int" where
  "to_double n d s =
     (if n = 0 then (0, 0)
      else let k = int (bit_length n) - int (bit_length d);
               e = (if d * 2 ^ nat k \<le> n * 2 ^ nat (- k) then k - 52 else k - 53)
           in (round_nearest_even (n * 2 ^ nat (- e)) (d * 2 ^ nat e), e + s))"

definition js_divide :: "nat \<Rightarrow> nat \<Rightarrow> nat \<times> int" where
  "js_divide a b = to_double a b 0"

definition js_times :: "nat \<times> int \<Rightarrow> nat \<Rightarrow> nat \<times> int" where
  "js_times x c = (case x of (m, e) \<Rightarrow> to_double (m * c) 1 e)"

text \<open>
  \<^verbatim>\<open>x.toFixed(2)\<close> for \<open>0 \<le> x < 10^21\<close>: the integer \<open>n\<close> for which \<open>n / 100\<close> is nearest
  to \<open>x\<close>, the larger of two equally near, printed with at least three digits and a
  point before the last two.
\<close>

definition hundredths :: "nat \<times> int \<Rightarrow> nat" where
  "hundredths x =
     (case x of (m, e) \<Rightarrow> (200 * m * 2 ^ nat e + 2 ^ nat (- e)) div (2 * 2 ^ nat (- e)))"

definition toFixed2 :: "nat \<times> int \<Rightarrow> string" where
  "toFixed2 x =
     (let ds = show_nat (hundredths x);
          padded = replicate (3 - length ds) CHR ''0'' @ ds
      in take (length padded - 2) padded @ ''.'' @ drop (length padded - 2) padded)"

text \<open>\<^verbatim>\<open>`${((score/totalScore) * 100).toFixed(2)}%`\<close> for \<open>totalScore > 0\<close>.\<close>

definition percentage_string :: "int \<Rightarrow> int \<Rightarrow> string" where
  "percentage_string score totalScore =
     (if score < 0 then ''-'' else []) @
     toFixed2 (js_times (js_divide (nat \<bar>score\<bar>) (nat totalScore)) 100) @ ''%''"

section \<open>sorobanSimple: badge metadata\<close>

record badge_metadata =
  name :: string
  description :: string
  image :: string
  attributes :: "(string \<times> string) list"

text \<open>\<^verbatim>\<open>testTitle || fallback\<close> for an optional string.\<close>

definition or_default :: "string option \<Rightarrow> string \<Rightarrow> string" where
  "or_default title fallback =
     (case title of None \<Rightarrow> fallback | Some t \<Rightarrow> if t = [] then fallback else t)"

text \<open>
  An optional number inside a template literal; the digits are those JavaScript
  prints when the number is a \<open>safe_number\<close>.
\<close>

definition num_string :: "int option \<Rightarrow> string" where
  "num_string n = (case n of None \<Rightarrow> ''undefined'' | Some i \<Rightarrow> show_int i)"

definition safe_number :: "int option \<Rightarrow> bool" where
  "safe_number n = (case n of None \<Rightarrow> True | Some i \<Rightarrow> safe_integer i)"

definition fileName_of :: "string \<Rightarrow> string \<Rightarrow> string" where
  "fileName_of tid walletAddress = tid @ ''_'' @ walletAddress @ ''.json''"

text \<open>
  The metadata object of \<^verbatim>\<open>generateBadgeMetadataUri\<close>. \<open>supabaseUrl\<close> is the configured
  base URL and \<open>issued\<close> the value of \<^verbatim>\<open>new Date().toISOString()\<close>. The texts made from
  \<open>score\<close> and \<open>totalScore\<close> are those of the source when both are \<open>safe_number\<close>s.
\<close>

definition badge_metadata_of ::
  "string \<Rightarrow> string \<Rightarrow> string \<Rightarrow> string \<Rightarrow> string option \<Rightarrow> int option \<Rightarrow> int option
     \<Rightarrow> badge_metadata" where
  "badge_metadata_of supabaseUrl issued tid walletAddress testTitle score totalScore =
     \<lparr> name = or_default testTitle ''Skill Badge'' @ '' - Achievement'',
       description = ''Badge earned for completing '' @ or_default testTitle ''the test'' @
                     '' with a score of '' @ num_string score @ ''/'' @ num_string totalScore,
       image = supabaseUrl @ ''/storage/v1/object/public/stellar/badge-metadata/badge-icon.png'',
       attributes =
         [(''Test ID'', tid),
          (''Test Title'', or_default testTitle ''Unknown Test''),
          (''Wallet Address'', walletAddress),
          (''Score'',
             (if score \<noteq> None \<and> totalScore \<noteq> None
              then num_string score @ ''/'' @ num_string totalScore else ''Passed'')),
          (''Percentage'',
             (case (score, totalScore) of
                (Some sc, Some tot) \<Rightarrow> if 0 < tot then percentage_string sc tot else ''N/A''
              | _ \<Rightarrow> ''N/A'')),
          (''Issued Date'', issued)] \<rparr>"

text \<open>
  The metadata object of the earlier revision of the same function, which tests
  \<^verbatim>\<open>score\<close> for truthiness and has neither a title nor a percentage attribute.
\<close>

definition earlier_badge_metadata_of ::
  "string \<Rightarrow> string \<Rightarrow> string \<Rightarrow> string \<Rightarrow> string option \<Rightarrow> int option \<Rightarrow> int option
     \<Rightarrow> badge_metadata" where
  "earlier_badge_metadata_of supabaseUrl issued tid walletAddress testTitle score totalScore =
     \<lparr> name = or_default testTitle ''Skill Badge'' @ '' - Achievement'',
       description = ''Badge earned for completing '' @ or_default testTitle ''the test'',
       image = supabaseUrl @ ''/storage/v1/object/public/badge-metadata/badge-icon.png'',
       attributes =
         [(''Test ID'', tid),
          (''Wallet Address'', walletAddress),
          (''Score'',
             (if score \<noteq> None \<and> score \<noteq> Some 0
              then num_string score @ ''/'' @ num_string totalScore else ''Passed'')),
          (''Issued Date'', issued)] \<rparr>"

text \<open>The value of the attribute with a given \<^verbatim>\<open>trait_type\<close>.\<close>

definition attribute :: "badge_metadata \<Rightarrow> string \<Rightarrow> string option" where
  "attribute m trait = map_of (attributes m) trait"

section \<open>Object storage\<close>

text \<open>
  Modelled from the spec: the object store behind
  \<^verbatim>\<open>supabase.storage.from(bucket).upload(path, body, {upsert})\<close> and \<^verbatim>\<open>getPublicUrl\<close>,
  which is a service outside the sources. The spec (4.2) gives its contract: with
  \<open>overwrite = false\<close> an existing key fails with \<open>Conflict\<close>; with \<open>overwrite = true\<close>
  the last write wins; it may also fail with a transient or an input error, here the
  \<open>fault\<close> of the call; the public URL is the concatenation of base, bucket and key.
\<close>

datatype storage_error = Conflict | TransientStorageError | InvalidInput

type_synonym 'c store = "string \<times> string \<Rightarrow> 'c option"

definition storage_upload ::
  "storage_error option \<Rightarrow> 'c store \<Rightarrow> string \<Rightarrow> string \<Rightarrow> 'c \<Rightarrow> bool \<Rightarrow> storage_error + 'c store" where
  "storage_upload fault st bucket path content upsert =
     (case fault of
        Some err \<Rightarrow> Inl err
      | None \<Rightarrow>
          if st (bucket, path) \<noteq> None \<and> \<not> upsert then Inl Conflict
          else Inr (st((bucket, path) \<mapsto> content)))"

definition publicUrl :: "string \<Rightarrow> string \<Rightarrow> string \<Rightarrow> string" where
  "publicUrl base bucket path = base @ ''/storage/v1/object/public/'' @ bucket @ ''/'' @ path"

text \<open>
  \<^verbatim>\<open>generateBadgeMetadataUri\<close>: the metadata is uploaded to the bucket \<^verbatim>\<open>stellar\<close> under
  \<^verbatim>\<open>badge-metadata/<fileName>\<close> with \<^verbatim>\<open>upsert: true\<close>; an upload error is thrown on, and
  otherwise the URL is put together from the base URL and the file name. The listing
  that follows the upload only logs.
\<close>

definition generateBadgeMetadataUri ::
  "storage_error option \<Rightarrow> string \<Rightarrow> string \<Rightarrow> badge_metadata store \<Rightarrow> string \<Rightarrow> string
     \<Rightarrow> string option \<Rightarrow> int option \<Rightarrow> int option
     \<Rightarrow> badge_metadata store \<times> (storage_error + string)" where
  "generateBadgeMetadataUri fault supabaseUrl issued st tid walletAddress testTitle score totalScore =
     (let fileName = fileName_of tid walletAddress;
          metadata = badge_metadata_of supabaseUrl issued tid walletAddress testTitle score totalScore
      in case storage_upload fault st ''stellar'' (''badge-metadata/'' @ fileName) metadata True of
           Inl uploadError \<Rightarrow> (st, Inl uploadError)
         | Inr st' \<Rightarrow>
             (st', Inr (supabaseUrl @ ''/storage/v1/object/public/stellar/badge-metadata/'' @ fileName)))"

section \<open>ProfileTab: uploading a custom badge\<close>

text \<open>\<^verbatim>\<open>String.prototype.trim\<close> on ASCII text.\<close>

definition is_space :: "char \<Rightarrow> bool" where
  "is_space c \<longleftrightarrow> c \<in> set [CHR '' '', CHR 0x09, CHR 0x0A, CHR 0x0B, CHR 0x0C, CHR 0x0D]"

definition trim :: "string \<Rightarrow> string" where
  "trim s = rev (dropWhile is_space (rev (dropWhile is_space s)))"

record custom_badge =
  user_id :: string
  badge_name :: string
  svg_url :: string

datatype upload_outcome =
    Shown_error string
  | Upload_error storage_error
  | Database_error string
  | Badge_created

text \<open>
  \<^verbatim>\<open>handleUploadBadge\<close>: after the two checks of the form, the SVG is uploaded under
  \<^verbatim>\<open>badges/<userId>_<Date.now()>.svg\<close> with \<^verbatim>\<open>upsert: false\<close>; an upload error ends the
  action, otherwise the public URL is stored in a new row of \<^verbatim>\<open>custom_badges\<close>
  (\<open>dbError\<close> is the error of that insert, if any). The result is the store, the table
  and what the user is shown.
\<close>

definition handleUploadBadge ::
  "storage_error option \<Rightarrow> string option \<Rightarrow> string \<Rightarrow> nat \<Rightarrow> string \<Rightarrow> string \<Rightarrow> string option
     \<Rightarrow> string store \<Rightarrow> custom_badge list \<Rightarrow> string store \<times> custom_badge list \<times> upload_outcome" where
  "handleUploadBadge fault dbError supabaseUrl now userId badgeName svgFile st rows =
     (if trim badgeName = [] then (st, rows, Shown_error ''Please enter a badge name'')
      else case svgFile of
        None \<Rightarrow> (st, rows, Shown_error ''Please select an SVG file'')
      | Some svg \<Rightarrow>
          (let filePath = ''badges/'' @ userId @ ''_'' @ show_nat now @ ''.svg''
           in case storage_upload fault st ''stellar'' filePath svg False of
                Inl uploadError \<Rightarrow> (st, rows, Upload_error uploadError)
              | Inr st' \<Rightarrow>
                  (case dbError of
                     Some msg \<Rightarrow> (st', rows, Database_error msg)
                   | None \<Rightarrow>
                       (st',
                        rows @ [\<lparr> user_id = userId, badge_name = trim badgeName,
                                  svg_url = publicUrl supabaseUrl ''stellar'' filePath \<rparr>],
                        Badge_created))))"

section \<open>Example inputs\<close>

definition mint_request :: request_body where
  "mint_request = body_of [(''receiver'', JStr ''GA''), (''testId'', JStr ''t1'')]"

definition practice_mint_request :: request_body where
  "practice_mint_request =
     body_of [(''receiver'', JStr ''GA''), (''testId'', JStr ''t1''), (''practice'', JBool True),
              (''mode'', JStr ''practice'')]"

text \<open>A storage service that stores under the texts of \<open>testId\<close> and \<open>receiver\<close>.\<close>

definition storage_ok :: storage_step where
  "storage_ok tid receiver title score totalScore =
     (case (js_to_string tid, js_to_string receiver) of
        (Inr t, Inr r) \<Rightarrow> Inr (''https://store/'' @ t @ ''_'' @ r @ ''.json'')
      | _ \<Rightarrow> Inl ''Cannot convert object to primitive value'')"

definition storage_down :: storage_step where
  "storage_down tid receiver title score totalScore = Inl ''upload failed''"

text \<open>A call during which the clock reads \<open>t\<close> at both readings.\<close>

definition entropy_at :: "nat \<Rightarrow> entropy" where
  "entropy_at t = \<lparr> now1 = t, now2 = t, rnd1 = ''0.abcdefgh'', rnd2 = ''0.ijklmnop'' \<rparr>"

text \<open>A server that accepts the transaction as pending and then answers polls by \<open>g\<close>.\<close>

definition accepting_sdk :: "(nat \<Rightarrow> string + tx_response) \<Rightarrow> sdk" where
  "accepting_sdk g =
     \<lparr> contract_error = None, getAccount = Inr (), build_error = None,
       simulateTransaction = Inr (SimulationOk None), assemble_error = None,
       sendTransaction = Inr \<lparr> send_status = ''PENDING'', send_hash = ''9f3c'', errorResult = [] \<rparr>,
       getTransaction = g \<rparr>"

text \<open>The same server, giving the accepted transaction another hash.\<close>

definition second_sdk :: "(nat \<Rightarrow> string + tx_response) \<Rightarrow> sdk" where
  "second_sdk g =
     (accepting_sdk g)
       \<lparr> sendTransaction :=
           Inr \<lparr> send_status = ''PENDING'', send_hash = ''77aa'', errorResult = [] \<rparr> \<rparr>"

definition tx_with_status :: "string \<Rightarrow> tx_response" where
  "tx_with_status st = \<lparr> tx_status = st, resultMetaXdr = False, returnValue = None \<rparr>"

definition tx_success :: "scval option \<Rightarrow> tx_response" where
  "tx_success rv = \<lparr> tx_status = ''SUCCESS'', resultMetaXdr = True, returnValue = rv \<rparr>"

text \<open>Polls are answered \<^verbatim>\<open>PENDING\<close> \<open>k\<close> times and by \<open>r\<close> from then on.\<close>

definition pending_then :: "nat \<Rightarrow> tx_response \<Rightarrow> nat \<Rightarrow> string + tx_response" where
  "pending_then k r n = (if n < k then Inr (tx_with_status ''PENDING'') else Inr r)"

text \<open>A server for the read-only queries, answering the simulation by \<open>sim\<close>.\<close>

definition reading_sdk :: "string + sim_response \<Rightarrow> sdk" where
  "reading_sdk sim =
     \<lparr> contract_error = None, getAccount = Inl ''account not found'', build_error = None,
       simulateTransaction = sim, assemble_error = None,
       sendTransaction = Inl ''never submitted'', getTransaction = (\<lambda>n. Inl ''never polled'') \<rparr>"

definition chain_entry :: jsval where
  "chain_entry = JObj [(''test_id'', JStr ''t1''), (''creator'', JStr ''GA''),
                       (''metadata_cid'', JStr ''t1.json''), (''created_at'', JNum 5)]"

text \<open>The metadata of one badge, for given scores.\<close>

definition example_metadata :: "int option \<Rightarrow> int option \<Rightarrow> badge_metadata" where
  "example_metadata score totalScore =
     badge_metadata_of ''https://p.supabase.co'' ''2025-01-01T00:00:00.000Z'' ''t1'' ''GA''
       (Some ''JavaScript Fundamentals'') score totalScore"

text \<open>A store in which the key of a custom badge is taken.\<close>

definition taken_store :: "string store" where
  "taken_store = Map.empty((''stellar'', ''badges/u1_5.svg'') \<mapsto> ''<svg/>'')"

definition pending_badge :: badge where
  "pending_badge = \<lparr> badge_id = ''b1'', test_id = ''t1'', wallet_address = ''GA'',
                      nft_token_id = JNull, mint_tx_hash = JNull, metadata_url = JNull \<rparr>"

definition other_badge :: badge where
  "other_badge = \<lparr> badge_id = ''b2'', test_id = ''t2'', wallet_address = ''GA'',
                    nft_token_id = JStr ''nft_t2_3'', mint_tx_hash = JStr ''sim_3_fgh'',
                    metadata_url = JStr ''https://store/t2_GA.json'' \<rparr>"

text \<open>A backend that answers the retry as the mint-nft route does at clock reading \<open>t\<close>.\<close>

definition backend_at ::
  "nat \<Rightarrow> string \<Rightarrow> string \<Rightarrow> string \<Rightarrow> int \<Rightarrow> int \<Rightarrow> string + nft_mint_result" where
  "backend_at t receiver tid title score totalScore =
     nftService_mintBadgeNFT storage_ok (entropy_at t) (JStr receiver) (JStr tid) (JStr title)
       (JNum score) (JNum totalScore)"

definition register_request :: request_body where
  "register_request =
     body_of [(''testId'', JStr ''t1''), (''creator'', JStr ''GA''), (''metadataCid'', JStr ''t1.json'')]"

section \<open>Basic facts\<close>

lemma show_nat_small: "n < 10 \<Longrightarrow> show_nat n = [digit_char n]"
  by (simp add: show_nat.simps)

lemma digit_char_inj: "a < 10 \<Longrightarrow> b < 10 \<Longrightarrow> digit_char a = digit_char b \<Longrightarrow> a = b"
proof -
  assume a: "a < 10" and b: "b < 10" and e: "digit_char a = digit_char b"
  have d: "distinct ''0123456789''" by simp
  have l: "length ''0123456789'' = 10" by simp
  from e have "''0123456789'' ! a = ''0123456789'' ! b" by (simp add: digit_char_def)
  with d a b l show "a = b" by (simp add: nth_eq_iff_index_eq)
qed

lemma digit_char_in: "d < 10 \<Longrightarrow> digit_char d \<in> set ''0123456789''"
  unfolding digit_char_def by (rule nth_mem) simp

lemma show_nat_ne: "show_nat n \<noteq> []"
  by (subst show_nat.simps) simp

lemma show_nat_digits: "set (show_nat n) \<subseteq> set ''0123456789''"
proof (induction n rule: show_nat.induct)
  case (1 n)
  show ?case
  proof (cases "n < 10")
    case True
    then show ?thesis using digit_char_in [of n] by (subst show_nat.simps) simp
  next
    case False
    have "n mod 10 < 10" by simp
    then have "digit_char (n mod 10) \<in> set ''0123456789''" by (rule digit_char_in)
    with False 1 show ?thesis by (subst show_nat.simps) simp
  qed
qed

lemma show_nat_inj: "show_nat a = show_nat b \<Longrightarrow> a = b"
proof (induction a arbitrary: b rule: show_nat.induct)
  case (1 a)
  show ?case
  proof (cases "a < 10")
    case a: True
    show ?thesis
    proof (cases "b < 10")
      case True
      with a 1(2) show ?thesis by (simp add: show_nat_small digit_char_inj)
    next
      case False
      then have "show_nat b = show_nat (b div 10) @ [digit_char (b mod 10)]"
        by (subst show_nat.simps) simp
      with a 1(2) show ?thesis using show_nat_ne [of "b div 10"] by (simp add: show_nat_small)
    qed
  next
    case a: False
    then have ea: "show_nat a = show_nat (a div 10) @ [digit_char (a mod 10)]"
      by (subst show_nat.simps) simp
    show ?thesis
    proof (cases "b < 10")
      case True
      with ea 1(2) show ?thesis using show_nat_ne [of "a div 10"] by (simp add: show_nat_small)
    next
      case False
      then have eb: "show_nat b = show_nat (b div 10) @ [digit_char (b mod 10)]"
        by (subst show_nat.simps) simp
      from ea eb 1(2) have q: "show_nat (a div 10) = show_nat (b div 10)"
        and r: "digit_char (a mod 10) = digit_char (b mod 10)" by simp_all
      from 1(1) [OF a q] have "a div 10 = b div 10" .
      moreover from r have "a mod 10 = b mod 10" by (intro digit_char_inj) simp_all
      ultimately have "10 * (a div 10) + a mod 10 = 10 * (b div 10) + b mod 10" by simp
      then show ?thesis by simp
    qed
  qed
qed

lemma split_at_sep:
  "c \<notin> set u \<Longrightarrow> c \<notin> set v \<Longrightarrow> u @ c # x = v @ c # y \<Longrightarrow> u = v \<and> x = y"
proof (induction u arbitrary: v)
  case Nil
  then show ?case by (cases v) auto
next
  case (Cons a u)
  then show ?case by (cases v) auto
qed

lemma underscore_not_digit: "CHR ''_'' \<notin> set (show_nat n)"
  using show_nat_digits [of n] by auto

lemma sim_hash_eq_iff:
  "sim_hash a r = sim_hash b s \<longleftrightarrow> a = b \<and> drop 7 r = drop 7 s"
proof
  assume "sim_hash a r = sim_hash b s"
  then have "show_nat a @ CHR ''_'' # drop 7 r = show_nat b @ CHR ''_'' # drop 7 s"
    by (simp add: sim_hash_def)
  from split_at_sep [OF underscore_not_digit underscore_not_digit this]
  show "a = b \<and> drop 7 r = drop 7 s" by (auto dest: show_nat_inj)
next
  assume "a = b \<and> drop 7 r = drop 7 s"
  then show "sim_hash a r = sim_hash b s" by (simp add: sim_hash_def)
qed

section \<open>Registration\<close>

lemma register_test_route_ok:
  assumes "truthy (b ''testId'')" and "truthy (b ''creator'')" and "truthy (b ''metadataCid'')"
  shows "register_test_route e b =
           \<lparr> status = 200,
             body = Success_data True ''Test registered on blockchain''
                      \<lparr> success = True, txHash = sim_hash (now1 e) (rnd1 e),
                        testMetadata = \<lparr> testId = b ''testId'', creator = b ''creator'',
                                         metadataCid = b ''metadataCid'', createdAt = JNum (int (now2 e)) \<rparr> \<rparr> \<rparr>"
  using assms
  by (simp add: register_test_route_def registerTest_def registryService_registerTestOnChain_def)

text \<open>
  C2, as the code has it. The registration operation consults no record of earlier
  registrations: its model takes no store and returns none. For every request whose
  \<open>testId\<close>, \<open>creator\<close> and \<open>metadataCid\<close> are present and non-empty, each call
  answers 200 with a freshly simulated hash \<^verbatim>\<open>sim_<clock>_<random suffix>\<close>, so two
  calls return the same \<open>txHash\<close> exactly when their clock reading and their random
  suffix coincide.
\<close>

theorem registration_returns_fresh_hash:
  "truthy (b ''testId'') \<and> truthy (b ''creator'') \<and> truthy (b ''metadataCid'') \<longrightarrow>
     status (register_test_route e1 b) = 200 \<and>
     map_option txHash (data_of (register_test_route e1 b)) = Some (sim_hash (now1 e1) (rnd1 e1)) \<and>
     (map_option txHash (data_of (register_test_route e1 b)) =
        map_option txHash (data_of (register_test_route e2 b))
      \<longleftrightarrow> now1 e1 = now1 e2 \<and> drop 7 (rnd1 e1) = drop 7 (rnd1 e2))"
  by (simp add: register_test_route_ok data_of_def sim_hash_eq_iff)

theorem registration_returns_fresh_hash_witness:
  "status (register_test_route (entropy_at 5) register_request) = 200 \<and>
   map_option txHash (data_of (register_test_route (entropy_at 5) register_request)) =
     Some ''sim_5_fgh'' \<and>
   map_option txHash (data_of (register_test_route (entropy_at 5) register_request)) =
     map_option txHash
       (data_of (register_test_route \<lparr>now1 = 5, now2 = 9, rnd1 = ''0.zzzzzfgh'', rnd2 = []\<rparr>
          register_request))"
proof -
  let ?e2 = "\<lparr>now1 = 5, now2 = 9, rnd1 = ''0.zzzzzfgh'', rnd2 = []\<rparr>"
  have h: "truthy (register_request ''testId'') \<and> truthy (register_request ''creator'') \<and>
      truthy (register_request ''metadataCid'')"
    by (simp add: register_request_def body_of_def)
  note t = registration_returns_fresh_hash [where b = register_request and ?e1.0 = "entropy_at 5"
      and ?e2.0 = ?e2, THEN mp, OF h]
  have v: "sim_hash (now1 (entropy_at 5)) (rnd1 (entropy_at 5)) = ''sim_5_fgh''"
    by (simp add: entropy_at_def sim_hash_def show_nat_small digit_char_def)
  have r: "now1 (entropy_at 5) = now1 ?e2 \<and> drop 7 (rnd1 (entropy_at 5)) = drop 7 (rnd1 ?e2)"
    by (simp add: entropy_at_def)
  from t [THEN conjunct1] t [THEN conjunct2, THEN conjunct1, unfolded v]
    t [THEN conjunct2, THEN conjunct2, THEN iffD2, OF r]
  show ?thesis by (intro conjI)
qed

text \<open>
  C2 as stated fails: the same valid request, registered at clock reading 1 and again
  at clock reading 2, is answered with two different hashes.
\<close>

theorem registration_twice_counterexample:
  "map_option txHash (data_of (register_test_route (entropy_at 1) register_request)) =
     Some ''sim_1_fgh'' \<and>
   map_option txHash (data_of (register_test_route (entropy_at 2) register_request)) =
     Some ''sim_2_fgh'' \<and>
   map_option txHash (data_of (register_test_route (entropy_at 1) register_request)) \<noteq>
     map_option txHash (data_of (register_test_route (entropy_at 2) register_request))"
  by (simp add: register_test_route_def registerTest_def registryService_registerTestOnChain_def
      data_of_def register_request_def body_of_def sim_hash_def entropy_at_def show_nat_small
      digit_char_def)

section \<open>The HTTP operations\<close>

lemma missing_iff: "missing v \<longleftrightarrow> \<not> truthy v"
  by (cases v) (auto simp: missing_def)

lemma registerTest_cases:
  "registerTest reg b =
     (if missing (b ''testId'') \<or> missing (b ''creator'') \<or> missing (b ''metadataCid'')
      then \<lparr> status = 400,
             body = Error_only ''Missing required fields: testId, creator, metadataCid'' \<rparr>
      else (case reg (b ''testId'') (b ''creator'') (b ''metadataCid'') of
              Inr result \<Rightarrow> \<lparr> status = 200,
                              body = Success_data True ''Test registered on blockchain'' result \<rparr>
            | Inl msg \<Rightarrow> \<lparr> status = 500,
                           body = Error_details ''Failed to register test on blockchain'' msg \<rparr>))"
  by (simp add: registerTest_def missing_iff)

lemma mintNFT_cases:
  "mintNFT mint b =
     (if missing (b ''receiver'') \<or> missing (b ''testId'')
      then \<lparr> status = 400, body = Error_only ''Missing required fields: receiver, testId'' \<rparr>
      else (case mint (b ''receiver'') (b ''testId'') (b ''testTitle'') (b ''score'')
                   (b ''totalScore'') of
              Inr result \<Rightarrow> \<lparr> status = 200,
                              body = Success_data True ''NFT badge minted successfully'' result \<rparr>
            | Inl msg \<Rightarrow> \<lparr> status = 500,
                           body = Error_details ''Failed to mint NFT badge'' msg \<rparr>))"
  by (simp add: mintNFT_def missing_iff)

text \<open>
  C7. The register-test operation answers 400 exactly when \<open>testId\<close>, \<open>creator\<close> or
  \<open>metadataCid\<close> is missing, the mint-nft operation exactly when \<open>receiver\<close> or
  \<open>testId\<close> is missing. Otherwise a failure of the workflow is answered 500 with
  \<^verbatim>\<open>{error, details}\<close> (the details being the workflow's message) and a success is
  answered with \<^verbatim>\<open>{success, message, data}\<close>. This holds for whichever service the
  handlers are linked with.
\<close>

theorem http_status_contract:
  "(status (registerTest reg b) = 400 \<longleftrightarrow>
      missing (b ''testId'') \<or> missing (b ''creator'') \<or> missing (b ''metadataCid'')) \<and>
   (status (mintNFT mint b) = 400 \<longleftrightarrow> missing (b ''receiver'') \<or> missing (b ''testId'')) \<and>
   (\<not> missing (b ''testId'') \<and> \<not> missing (b ''creator'') \<and> \<not> missing (b ''metadataCid'') \<longrightarrow>
      (\<forall>msg. reg (b ''testId'') (b ''creator'') (b ''metadataCid'') = Inl msg \<longrightarrow>
         registerTest reg b =
           \<lparr> status = 500,
             body = Error_details ''Failed to register test on blockchain'' msg \<rparr>) \<and>
      (\<forall>r. reg (b ''testId'') (b ''creator'') (b ''metadataCid'') = Inr r \<longrightarrow>
         registerTest reg b =
           \<lparr> status = 200, body = Success_data True ''Test registered on blockchain'' r \<rparr>)) \<and>
   (\<not> missing (b ''receiver'') \<and> \<not> missing (b ''testId'') \<longrightarrow>
      (\<forall>msg. mint (b ''receiver'') (b ''testId'') (b ''testTitle'') (b ''score'')
               (b ''totalScore'') = Inl msg \<longrightarrow>
         mintNFT mint b =
           \<lparr> status = 500, body = Error_details ''Failed to mint NFT badge'' msg \<rparr>) \<and>
      (\<forall>r. mint (b ''receiver'') (b ''testId'') (b ''testTitle'') (b ''score'')
             (b ''totalScore'') = Inr r \<longrightarrow>
         mintNFT mint b =
           \<lparr> status = 200, body = Success_data True ''NFT badge minted successfully'' r \<rparr>))"
  by (auto simp: registerTest_cases mintNFT_cases split: sum.splits)


text \<open>C7 on concrete requests: each of the three outcomes, for both operations.\<close>

theorem http_status_contract_witness:
  "status (registerTest (registryService_registerTestOnChain (entropy_at 5)) register_request) \<noteq> 400 \<and>
   status (registerTest (registryService_registerTestOnChain (entropy_at 5)) (body_of [])) = 400 \<and>
   registerTest (\<lambda>tid cr cid. Inl ''Test registration failed: boom'' :: string + test_registration_result)
       register_request =
     \<lparr> status = 500,
       body = Error_details ''Failed to register test on blockchain'' ''Test registration failed: boom'' \<rparr> \<and>
   status (mintNFT (nftService_mintBadgeNFT storage_ok (entropy_at 5))
            (body_of [(''receiver'', JStr ''GA'')])) = 400 \<and>
   mintNFT (nftService_mintBadgeNFT storage_down (entropy_at 5)) mint_request =
     \<lparr> status = 500,
       body = Error_details ''Failed to mint NFT badge'' ''NFT minting failed: upload failed'' \<rparr> \<and>
   mintNFT (nftService_mintBadgeNFT storage_ok (entropy_at 5)) mint_request =
     \<lparr> status = 200,
       body = Success_data True ''NFT badge minted successfully''
                \<lparr> success = True, txHash = ''sim_5_fgh'', tokenId = JStr ''nft_t1_5'',
                  metadataUrl = ''https://store/t1_GA.json'' \<rparr> \<rparr>"
proof -
  let ?reg = "registryService_registerTestOnChain (entropy_at 5)"
  let ?boom = "\<lambda>tid cr cid. Inl ''Test registration failed: boom'' :: string + test_registration_result"
  let ?ok = "nftService_mintBadgeNFT storage_ok (entropy_at 5)"
  let ?down = "nftService_mintBadgeNFT storage_down (entropy_at 5)"
  have present: "\<not> (missing (register_request ''testId'') \<or> missing (register_request ''creator'') \<or>
      missing (register_request ''metadataCid''))"
    by (simp add: missing_def register_request_def body_of_def)
  have present3: "\<not> missing (register_request ''testId'') \<and> \<not> missing (register_request ''creator'') \<and>
      \<not> missing (register_request ''metadataCid'')"
    using present by simp
  have absent: "missing (body_of [] ''testId'') \<or> missing (body_of [] ''creator'') \<or>
      missing (body_of [] ''metadataCid'')"
    by (simp add: missing_def body_of_def)
  have no_test: "missing (body_of [(''receiver'', JStr ''GA'')] ''receiver'') \<or>
      missing (body_of [(''receiver'', JStr ''GA'')] ''testId'')"
    by (simp add: missing_def body_of_def)
  have mint_present: "\<not> missing (mint_request ''receiver'') \<and> \<not> missing (mint_request ''testId'')"
    by (simp add: missing_def mint_request_def body_of_def)
  have down: "?down (mint_request ''receiver'') (mint_request ''testId'') (mint_request ''testTitle'')
      (mint_request ''score'') (mint_request ''totalScore'') = Inl ''NFT minting failed: upload failed''"
    by (simp add: nftService_mintBadgeNFT_def storage_down_def)
  have ok: "?ok (mint_request ''receiver'') (mint_request ''testId'') (mint_request ''testTitle'')
      (mint_request ''score'') (mint_request ''totalScore'') =
        Inr \<lparr> success = True, txHash = ''sim_5_fgh'', tokenId = JStr ''nft_t1_5'',
              metadataUrl = ''https://store/t1_GA.json'' \<rparr>"
    by (simp add: nftService_mintBadgeNFT_def storage_ok_def mint_request_def body_of_def
        entropy_at_def sim_hash_def show_nat_small digit_char_def)
  note c = http_status_contract
  have a1: "status (registerTest ?reg register_request) \<noteq> 400"
    using c [where reg = ?reg and b = register_request, THEN conjunct1] present by simp
  have a2: "status (registerTest ?reg (body_of [])) = 400"
    using c [where reg = ?reg and b = "body_of []", THEN conjunct1] absent by simp
  have a3: "registerTest ?boom register_request =
     \<lparr> status = 500,
       body = Error_details ''Failed to register test on blockchain'' ''Test registration failed: boom'' \<rparr>"
    using c [where reg = ?boom and b = register_request, THEN conjunct2, THEN conjunct2,
        THEN conjunct1, THEN mp, OF present3, THEN conjunct1]
    by simp
  have a4: "status (mintNFT ?ok (body_of [(''receiver'', JStr ''GA'')])) = 400"
    using c [where mint = ?ok and b = "body_of [(''receiver'', JStr ''GA'')]", THEN conjunct2,
        THEN conjunct1] no_test by simp
  have a5: "mintNFT ?down mint_request =
     \<lparr> status = 500,
       body = Error_details ''Failed to mint NFT badge'' ''NFT minting failed: upload failed'' \<rparr>"
    using c [where mint = ?down and b = mint_request, THEN conjunct2, THEN conjunct2,
        THEN conjunct2, THEN mp, OF mint_present, THEN conjunct1, THEN spec, THEN mp, OF down] .
  have a6: "mintNFT ?ok mint_request =
     \<lparr> status = 200,
       body = Success_data True ''NFT badge minted successfully''
                \<lparr> success = True, txHash = ''sim_5_fgh'', tokenId = JStr ''nft_t1_5'',
                  metadataUrl = ''https://store/t1_GA.json'' \<rparr> \<rparr>"
    using c [where mint = ?ok and b = mint_request, THEN conjunct2, THEN conjunct2,
        THEN conjunct2, THEN mp, OF mint_present, THEN conjunct2, THEN spec, THEN mp, OF ok] .
  from a1 a2 a3 a4 a5 a6 show ?thesis by (intro conjI)
qed

section \<open>Issuance\<close>

lemma mint_nft_route_ok:
  assumes "truthy (b ''receiver'')" and "b ''testId'' = JStr t" and "t \<noteq> []"
    and "storage (b ''testId'') (b ''receiver'') (b ''testTitle'') (b ''score'') (b ''totalScore'') = Inr url"
  shows "mint_nft_route storage e b =
           \<lparr> status = 200,
             body = Success_data True ''NFT badge minted successfully''
                      \<lparr> success = True, txHash = sim_hash (now2 e) (rnd1 e),
                        tokenId = JStr (''nft_'' @ t @ ''_'' @ show_nat (now1 e)),
                        metadataUrl = url \<rparr> \<rparr>"
  using assms by (simp add: mint_nft_route_def mintNFT_def nftService_mintBadgeNFT_def)

text \<open>
  A \<open>testId\<close> that is no string may fail to convert: the upload succeeded, no token
  id is made, and the operation answers 500.
\<close>

lemma mint_nft_route_conversion_throws:
  assumes "truthy (b ''receiver'')" and "truthy (b ''testId'')"
    and "storage (b ''testId'') (b ''receiver'') (b ''testTitle'') (b ''score'') (b ''totalScore'') = Inr url"
    and "js_to_string (b ''testId'') = Inl msg"
  shows "mint_nft_route storage e b =
           \<lparr> status = 500,
             body = Error_details ''Failed to mint NFT badge'' (''NFT minting failed: '' @ msg) \<rparr>"
  using assms by (simp add: mint_nft_route_def mintNFT_def nftService_mintBadgeNFT_def)

lemma object_test_id_is_refused:
  "mint_nft_route (\<lambda>tid receiver title score totalScore. Inr ''u'') e
     (body_of [(''receiver'', JStr ''GA''), (''testId'', JObj [(''toString'', JNum 1)])]) =
   \<lparr> status = 500,
     body = Error_details ''Failed to mint NFT badge''
              ''NFT minting failed: Cannot convert object to primitive value'' \<rparr>"
  by (simp add: mint_nft_route_def mintNFT_def nftService_mintBadgeNFT_def body_of_def)

lemma update_badges_eq_id_ids: "map badge_id (update_badges_eq_id bid f rows) = map badge_id rows"
  if "\<And>r. badge_id (f r) = badge_id r"
  using that by (induction rows) (simp_all add: update_badges_eq_id_def)

lemma retryMintNFT_ids:
  "map badge_id (fst (retryMintNFT backend upd w title bdg rows)) = map badge_id rows"
  by (simp add: retryMintNFT_def Let_def update_badges_eq_id_ids split: sum.splits option.splits)

text \<open>
  C1, as the code has it. The mint-nft operation keeps no badge rows and looks none
  up: for a \<open>testId\<close> that is a non-empty string, each call whose metadata upload
  succeeds mints again and returns the token id \<^verbatim>\<open>nft_<testId>_<clock>\<close>, so two calls
  for the same (testId, receiver) return the same token id exactly when their clock
  readings coincide. The retry action, which calls the operation, updates the rows
  selected by id: it never adds a row.
\<close>

theorem mint_twice_mints_again:
  "(truthy (b ''receiver'') \<and> b ''testId'' = JStr t \<and> t \<noteq> [] \<and>
    storage1 (b ''testId'') (b ''receiver'') (b ''testTitle'') (b ''score'') (b ''totalScore'') = Inr url1 \<and>
    storage2 (b ''testId'') (b ''receiver'') (b ''testTitle'') (b ''score'') (b ''totalScore'') = Inr url2 \<longrightarrow>
      map_option tokenId (data_of (mint_nft_route storage1 e1 b)) =
        Some (JStr (''nft_'' @ t @ ''_'' @ show_nat (now1 e1))) \<and>
      map_option tokenId (data_of (mint_nft_route storage2 e2 b)) =
        Some (JStr (''nft_'' @ t @ ''_'' @ show_nat (now1 e2))) \<and>
      (map_option tokenId (data_of (mint_nft_route storage1 e1 b)) =
         map_option tokenId (data_of (mint_nft_route storage2 e2 b)) \<longleftrightarrow> now1 e1 = now1 e2)) \<and>
   length (fst (retryMintNFT backend upd w title bdg rows)) = length rows \<and>
   map badge_id (fst (retryMintNFT backend upd w title bdg rows)) = map badge_id rows"
proof -
  have "length (fst (retryMintNFT backend upd w title bdg rows)) = length rows"
    using retryMintNFT_ids [of backend upd w title bdg rows] by (metis length_map)
  then show ?thesis
    by (auto simp: mint_nft_route_ok data_of_def retryMintNFT_ids dest: show_nat_inj)
qed


text \<open>C1 on a concrete request, minted at clock readings 1 and 2.\<close>

theorem mint_twice_mints_again_witness:
  "map_option tokenId (data_of (mint_nft_route storage_ok (entropy_at 1) mint_request)) =
     Some (JStr ''nft_t1_1'') \<and>
   map_option tokenId (data_of (mint_nft_route storage_ok (entropy_at 2) mint_request)) =
     Some (JStr ''nft_t1_2'') \<and>
   map_option tokenId (data_of (mint_nft_route storage_ok (entropy_at 1) mint_request)) \<noteq>
     map_option tokenId (data_of (mint_nft_route storage_ok (entropy_at 2) mint_request)) \<and>
   length (fst (retryMintNFT (backend_at 1) None ''GA'' None pending_badge [pending_badge, other_badge])) = 2 \<and>
   map badge_id (fst (retryMintNFT (backend_at 1) None ''GA'' None pending_badge [pending_badge, other_badge]))
     = [''b1'', ''b2'']"
proof -
  have h: "truthy (mint_request ''receiver'') \<and> mint_request ''testId'' = JStr ''t1'' \<and> ''t1'' \<noteq> [] \<and>
      storage_ok (mint_request ''testId'') (mint_request ''receiver'') (mint_request ''testTitle'')
        (mint_request ''score'') (mint_request ''totalScore'') = Inr ''https://store/t1_GA.json'' \<and>
      storage_ok (mint_request ''testId'') (mint_request ''receiver'') (mint_request ''testTitle'')
        (mint_request ''score'') (mint_request ''totalScore'') = Inr ''https://store/t1_GA.json''"
    by (simp add: mint_request_def body_of_def storage_ok_def)
  note t = mint_twice_mints_again [where b = mint_request and t = "''t1''" and ?storage1.0 = storage_ok
      and ?storage2.0 = storage_ok and ?url1.0 = "''https://store/t1_GA.json''"
      and ?url2.0 = "''https://store/t1_GA.json''" and ?e1.0 = "entropy_at 1"
      and ?e2.0 = "entropy_at 2" and backend = "backend_at 1" and upd = None and w = "''GA''"
      and title = None and bdg = pending_badge and rows = "[pending_badge, other_badge]"]
  note m = t [THEN conjunct1, THEN mp, OF h]
  have v: "''nft_'' @ ''t1'' @ ''_'' @ show_nat (now1 (entropy_at 1)) = ''nft_t1_1''"
    "''nft_'' @ ''t1'' @ ''_'' @ show_nat (now1 (entropy_at 2)) = ''nft_t1_2''"
    by (simp_all add: entropy_at_def show_nat_small digit_char_def)
  have d: "now1 (entropy_at 1) \<noteq> now1 (entropy_at 2)" by (simp add: entropy_at_def)
  have a: "map_option tokenId (data_of (mint_nft_route storage_ok (entropy_at 1) mint_request)) =
      Some (JStr ''nft_t1_1'')"
    using m [THEN conjunct1] unfolding v .
  have b: "map_option tokenId (data_of (mint_nft_route storage_ok (entropy_at 2) mint_request)) =
      Some (JStr ''nft_t1_2'')"
    using m [THEN conjunct2, THEN conjunct1] unfolding v .
  have c: "map_option tokenId (data_of (mint_nft_route storage_ok (entropy_at 1) mint_request)) \<noteq>
      map_option tokenId (data_of (mint_nft_route storage_ok (entropy_at 2) mint_request))"
    using m [THEN conjunct2, THEN conjunct2] d by simp
  have l: "length (fst (retryMintNFT (backend_at 1) None ''GA'' None pending_badge
      [pending_badge, other_badge])) = 2"
    using t [THEN conjunct2, THEN conjunct1] by simp
  have i: "map badge_id (fst (retryMintNFT (backend_at 1) None ''GA'' None pending_badge
      [pending_badge, other_badge])) = [''b1'', ''b2'']"
    using t [THEN conjunct2, THEN conjunct2] by (simp add: pending_badge_def other_badge_def)
  from a b c l i show ?thesis by (intro conjI)
qed

text \<open>
  C1 as stated fails: the first call returns the non-null token id \<^verbatim>\<open>nft_t1_1\<close>, the
  second call for the same (testId, receiver) returns \<^verbatim>\<open>nft_t1_2\<close>; and a second
  retry overwrites the token id the first retry stored in the badge row.
\<close>

theorem mint_twice_counterexample:
  "map_option tokenId (data_of (mint_nft_route storage_ok (entropy_at 1) mint_request)) =
     Some (JStr ''nft_t1_1'') \<and>
   map_option tokenId (data_of (mint_nft_route storage_ok (entropy_at 2) mint_request)) =
     Some (JStr ''nft_t1_2'') \<and>
   map nft_token_id (fst (retryMintNFT (backend_at 1) None ''GA'' None pending_badge [pending_badge]))
     = [JStr ''nft_t1_1''] \<and>
   map nft_token_id
     (fst (retryMintNFT (backend_at 2) None ''GA'' None pending_badge
        (fst (retryMintNFT (backend_at 1) None ''GA'' None pending_badge [pending_badge]))))
     = [JStr ''nft_t1_2'']"
  by (simp add: mint_nft_route_def mintNFT_def nftService_mintBadgeNFT_def data_of_def
      mint_request_def body_of_def storage_ok_def entropy_at_def show_nat_small digit_char_def
      retryMintNFT_def retry_title_def update_badges_eq_id_def backend_at_def pending_badge_def)

text \<open>
  C3, as the code has it. Issuance has no practice mode: the mint-nft operation reads
  the five fields \<open>receiver\<close>, \<open>testId\<close>, \<open>testTitle\<close>, \<open>score\<close>, \<open>totalScore\<close> and
  nothing else of the request, refuses (400) only when \<open>receiver\<close> or \<open>testId\<close> is
  missing, and mints whenever \<open>testId\<close> is a string and the metadata upload succeeds.
  The retry action writes the token id the backend returns into the badge row, with
  no check of its own.
\<close>

theorem mint_has_no_practice_mode:
  "((\<forall>k \<in> set [''receiver'', ''testId'', ''testTitle'', ''score'', ''totalScore'']. b k = b' k) \<longrightarrow>
      mint_nft_route storage e b = mint_nft_route storage e b') \<and>
   (status (mint_nft_route storage e b) = 400 \<longleftrightarrow> missing (b ''receiver'') \<or> missing (b ''testId'')) \<and>
   (\<not> missing (b ''receiver'') \<and> \<not> missing (b ''testId'') \<and> b ''testId'' = JStr t \<and>
    storage (b ''testId'') (b ''receiver'') (b ''testTitle'') (b ''score'') (b ''totalScore'') = Inr url \<longrightarrow>
      status (mint_nft_route storage e b) = 200 \<and>
      map_option tokenId (data_of (mint_nft_route storage e b)) =
        Some (JStr (''nft_'' @ t @ ''_'' @ show_nat (now1 e)))) \<and>
   (backend w (test_id bdg) (retry_title title) 0 0 = Inr d \<longrightarrow>
      fst (retryMintNFT backend None w title bdg rows) =
        update_badges_eq_id (badge_id bdg)
          (\<lambda>r. r\<lparr> nft_token_id := tokenId d, mint_tx_hash := JStr (txHash d),
                  metadata_url := JStr (metadataUrl d) \<rparr>) rows)"
proof -
  have a: "(\<forall>k \<in> set [''receiver'', ''testId'', ''testTitle'', ''score'', ''totalScore'']. b k = b' k) \<longrightarrow>
      mint_nft_route storage e b = mint_nft_route storage e b'"
    by (simp add: mint_nft_route_def mintNFT_def)
  have b: "status (mint_nft_route storage e b) = 400 \<longleftrightarrow> missing (b ''receiver'') \<or> missing (b ''testId'')"
    by (auto simp: mint_nft_route_def mintNFT_cases split: sum.splits)
  have c: "\<not> missing (b ''receiver'') \<and> \<not> missing (b ''testId'') \<and> b ''testId'' = JStr t \<and>
    storage (b ''testId'') (b ''receiver'') (b ''testTitle'') (b ''score'') (b ''totalScore'') = Inr url \<longrightarrow>
      status (mint_nft_route storage e b) = 200 \<and>
      map_option tokenId (data_of (mint_nft_route storage e b)) =
        Some (JStr (''nft_'' @ t @ ''_'' @ show_nat (now1 e)))"
  proof (intro impI)
    assume h: "\<not> missing (b ''receiver'') \<and> \<not> missing (b ''testId'') \<and> b ''testId'' = JStr t \<and>
      storage (b ''testId'') (b ''receiver'') (b ''testTitle'') (b ''score'') (b ''totalScore'') = Inr url"
    then have r: "truthy (b ''receiver'')" by (simp add: missing_iff)
    from h have s: "b ''testId'' = JStr t" by (elim conjE)
    from h have u: "storage (b ''testId'') (b ''receiver'') (b ''testTitle'') (b ''score'') (b ''totalScore'') = Inr url"
      by (elim conjE)
    from h have n: "t \<noteq> []" by (auto simp: missing_def)
    show "status (mint_nft_route storage e b) = 200 \<and>
      map_option tokenId (data_of (mint_nft_route storage e b)) =
        Some (JStr (''nft_'' @ t @ ''_'' @ show_nat (now1 e)))"
      by (simp add: mint_nft_route_ok [where storage = storage and b = b, OF r s n u] data_of_def)
  qed
  have d: "backend w (test_id bdg) (retry_title title) 0 0 = Inr d \<longrightarrow>
      fst (retryMintNFT backend None w title bdg rows) =
        update_badges_eq_id (badge_id bdg)
          (\<lambda>r. r\<lparr> nft_token_id := tokenId d, mint_tx_hash := JStr (txHash d),
                  metadata_url := JStr (metadataUrl d) \<rparr>) rows"
    by (simp add: retryMintNFT_def)
  from a b c d show ?thesis by blast
qed

text \<open>C3 on a request that marks itself as a practice attempt.\<close>

theorem mint_has_no_practice_mode_witness:
  "mint_nft_route storage_ok (entropy_at 7) practice_mint_request =
     mint_nft_route storage_ok (entropy_at 7) mint_request \<and>
   status (mint_nft_route storage_ok (entropy_at 7) practice_mint_request) = 200 \<and>
   map_option tokenId (data_of (mint_nft_route storage_ok (entropy_at 7) practice_mint_request)) =
     Some (JStr ''nft_t1_7'') \<and>
   status (mint_nft_route storage_ok (entropy_at 7) (body_of [(''practice'', JBool True)])) = 400 \<and>
   map nft_token_id (fst (retryMintNFT (backend_at 7) None ''GA'' None pending_badge [pending_badge, other_badge]))
     = [JStr ''nft_t1_7'', JStr ''nft_t2_3'']"
proof -
  let ?d = "\<lparr> success = True, txHash = ''sim_7_fgh'', tokenId = JStr ''nft_t1_7'',
              metadataUrl = ''https://store/t1_GA.json'' \<rparr>"
  have same: "\<forall>k \<in> set [''receiver'', ''testId'', ''testTitle'', ''score'', ''totalScore''].
      practice_mint_request k = mint_request k"
    by (simp add: practice_mint_request_def mint_request_def body_of_def)
  have h: "\<not> missing (practice_mint_request ''receiver'') \<and> \<not> missing (practice_mint_request ''testId'') \<and>
      practice_mint_request ''testId'' = JStr ''t1'' \<and>
      storage_ok (practice_mint_request ''testId'') (practice_mint_request ''receiver'')
        (practice_mint_request ''testTitle'') (practice_mint_request ''score'')
        (practice_mint_request ''totalScore'') = Inr ''https://store/t1_GA.json''"
    by (simp add: missing_def practice_mint_request_def body_of_def storage_ok_def)
  have no_fields: "missing (body_of [(''practice'', JBool True)] ''receiver'') \<or>
      missing (body_of [(''practice'', JBool True)] ''testId'')"
    by (simp add: missing_def body_of_def)
  have backend: "backend_at 7 ''GA'' (test_id pending_badge) (retry_title None) 0 0 = Inr ?d"
    by (simp add: backend_at_def nftService_mintBadgeNFT_def storage_ok_def entropy_at_def
        sim_hash_def pending_badge_def show_nat_small digit_char_def)
  note t = mint_has_no_practice_mode [where storage = storage_ok and t = "''t1''" and e = "entropy_at 7"
      and url = "''https://store/t1_GA.json''" and backend = "backend_at 7" and w = "''GA''"
      and bdg = pending_badge and title = None and d = ?d and rows = "[pending_badge, other_badge]"]
  note p = t [where b = practice_mint_request and b' = mint_request]
  have v: "''nft_'' @ ''t1'' @ ''_'' @ show_nat (now1 (entropy_at 7)) = ''nft_t1_7''"
    by (simp add: entropy_at_def show_nat_small digit_char_def)
  have a: "mint_nft_route storage_ok (entropy_at 7) practice_mint_request =
      mint_nft_route storage_ok (entropy_at 7) mint_request"
    using p [THEN conjunct1, THEN mp, OF same] .
  note m = p [THEN conjunct2, THEN conjunct2, THEN conjunct1, THEN mp, OF h]
  have b: "status (mint_nft_route storage_ok (entropy_at 7) practice_mint_request) = 200"
    using m [THEN conjunct1] .
  have c: "map_option tokenId (data_of (mint_nft_route storage_ok (entropy_at 7) practice_mint_request)) =
      Some (JStr ''nft_t1_7'')"
    using m [THEN conjunct2] unfolding v .
  have d: "status (mint_nft_route storage_ok (entropy_at 7) (body_of [(''practice'', JBool True)])) = 400"
    using t [where b = "body_of [(''practice'', JBool True)]" and b' = mint_request,
        THEN conjunct2, THEN conjunct1, THEN iffD2, OF no_fields] .
  have e: "map nft_token_id (fst (retryMintNFT (backend_at 7) None ''GA'' None pending_badge
      [pending_badge, other_badge])) = [JStr ''nft_t1_7'', JStr ''nft_t2_3'']"
    using p [THEN conjunct2, THEN conjunct2, THEN conjunct2, THEN mp, OF backend]
    by (simp add: update_badges_eq_id_def pending_badge_def other_badge_def)
  from a b c d e show ?thesis by (intro conjI)
qed

text \<open>
  C3 as stated fails: a request that marks itself as a practice attempt is answered
  200 with a token id, and the retry action stores that token id in the badge row.
\<close>

theorem practice_request_is_minted_counterexample:
  "status (mint_nft_route storage_ok (entropy_at 7) practice_mint_request) = 200 \<and>
   map_option tokenId (data_of (mint_nft_route storage_ok (entropy_at 7) practice_mint_request)) =
     Some (JStr ''nft_t1_7'') \<and>
   map nft_token_id (fst (retryMintNFT (backend_at 7) None ''GA'' None pending_badge [pending_badge]))
     = [JStr ''nft_t1_7'']"
  by (simp add: mint_nft_route_def mintNFT_def nftService_mintBadgeNFT_def data_of_def
      practice_mint_request_def body_of_def storage_ok_def entropy_at_def show_nat_small digit_char_def
      retryMintNFT_def retry_title_def update_badges_eq_id_def backend_at_def pending_badge_def)

section \<open>Effects: the laws used below\<close>

lemma bind_return [simp]: "bind_eff (return_eff x) f = f x"
  by (simp add: bind_eff_def return_eff_def split: prod.splits)

lemma bind_throw [simp]: "bind_eff (throw_eff msg) f = throw_eff msg"
  by (simp add: bind_eff_def throw_eff_def)

lemma bind_Inl [simp]: "bind_eff (tr, Inl msg) f = (tr, Inl msg)"
  by (simp add: bind_eff_def)

lemma bind_Inr [simp]: "bind_eff (tr, Inr x) f = (tr @ fst (f x), snd (f x))"
  by (simp add: bind_eff_def split: prod.splits)

lemma bind_effect [simp]: "bind_eff (effect ev) f = (ev # fst (f ()), snd (f ()))"
  by (simp add: effect_def)

lemma bind_rpc_Inr [simp]: "bind_eff (rpc nm (Inr x)) f = (Rpc nm # fst (f x), snd (f x))"
  by (simp add: rpc_def)

lemma bind_rpc_Inl [simp]: "bind_eff (rpc nm (Inl msg)) f = ([Rpc nm], Inl msg)"
  by (simp add: rpc_def)

lemma polls_simps [simp]:
  "polls [] = 0"
  "polls (Sleep ms # tr) = polls tr"
  "polls (Rpc nm # tr) = (if nm = ''getTransaction'' then Suc (polls tr) else polls tr)"
  "polls (Console_warn w # tr) = polls tr"
  "polls (Console_error w # tr) = polls tr"
  "polls (tr @ tr') = polls tr + polls tr'"
  by (simp_all add: polls_def)

lemma slept_simps [simp]:
  "slept_ms [] = 0"
  "slept_ms (Sleep ms # tr) = ms + slept_ms tr"
  "slept_ms (Rpc nm # tr) = slept_ms tr"
  "slept_ms (Console_warn w # tr) = slept_ms tr"
  "slept_ms (Console_error w # tr) = slept_ms tr"
  "slept_ms (tr @ tr') = slept_ms tr + slept_ms tr'"
  by (simp_all add: slept_ms_def)

lemma poll_final: "st \<noteq> ''PENDING'' \<Longrightarrow> poll g st a = ([], Inr (st, a))"
  by (subst poll.simps) (simp add: return_eff_def)

lemma poll_exhausted: "maxAttempts \<le> a \<Longrightarrow> poll g st a = ([], Inr (st, a))"
  by (subst poll.simps) (simp add: return_eff_def)

lemma poll_step_Inr:
  "a < maxAttempts \<Longrightarrow> g a = Inr r \<Longrightarrow>
   poll g ''PENDING'' a =
     (Sleep 1000 # Rpc ''getTransaction'' # fst (poll g (tx_status r) (Suc a)),
      snd (poll g (tx_status r) (Suc a)))"
  by (subst poll.simps) simp

lemma poll_step_Inl:
  "a < maxAttempts \<Longrightarrow> g a = Inl msg \<Longrightarrow>
   poll g ''PENDING'' a = ([Sleep 1000, Rpc ''getTransaction''], Inl msg)"
  by (subst poll.simps) simp

lemma poll_sleeps: "slept_ms (fst (poll g st a)) = 1000 * polls (fst (poll g st a))"
proof (induction g st a rule: poll.induct)
  case (1 g st a)
  show ?case
  proof (cases "st = ''PENDING'' \<and> a < maxAttempts")
    case False
    then have "poll g st a = ([], Inr (st, a))"
      using poll_final [of st g a] poll_exhausted [of a g st] by auto
    then show ?thesis by simp
  next
    case True
    show ?thesis
    proof (cases "g a")
      case (Inl msg)
      with True show ?thesis by (auto simp: poll_step_Inl)
    next
      case (Inr r)
      with True 1 [OF True, of r] show ?thesis by (auto simp: poll_step_Inr)
    qed
  qed
qed

lemma poll_count: "polls (fst (poll g st a)) \<le> maxAttempts - a"
proof (induction g st a rule: poll.induct)
  case (1 g st a)
  show ?case
  proof (cases "st = ''PENDING'' \<and> a < maxAttempts")
    case False
    then have "poll g st a = ([], Inr (st, a))"
      using poll_final [of st g a] poll_exhausted [of a g st] by auto
    then show ?thesis by simp
  next
    case True
    show ?thesis
    proof (cases "g a")
      case (Inl msg)
      with True show ?thesis by (auto simp: poll_step_Inl)
    next
      case (Inr r)
      with True 1 [OF True, of r] show ?thesis by (auto simp: poll_step_Inr)
    qed
  qed
qed

lemma poll_returns:
  "snd (poll g st a) = Inr (st', n) \<Longrightarrow> a \<le> maxAttempts \<Longrightarrow>
   (st' \<noteq> ''PENDING'' \<or> n = maxAttempts) \<and> a \<le> n \<and> n \<le> maxAttempts \<and>
   polls (fst (poll g st a)) = n - a"
proof (induction g st a rule: poll.induct)
  case (1 g st a)
  show ?case
  proof (cases "st = ''PENDING'' \<and> a < maxAttempts")
    case False
    then have "poll g st a = ([], Inr (st, a))"
      using poll_final [of st g a] poll_exhausted [of a g st] by auto
    with False 1(2,3) show ?thesis by auto
  next
    case True
    show ?thesis
    proof (cases "g a")
      case (Inl msg)
      with True 1(2) show ?thesis by (simp add: poll_step_Inl)
    next
      case (Inr r)
      with True 1(2) have s: "snd (poll g (tx_status r) (a + 1)) = Inr (st', n)"
        by (simp add: poll_step_Inr)
      from True have "a + 1 \<le> maxAttempts" by simp
      from 1(1) [OF True s this] Inr True show ?thesis
        by (auto simp: poll_step_Inr)
    qed
  qed
qed


lemma poll_until:
  "j < maxAttempts \<Longrightarrow> a \<le> j \<Longrightarrow> (\<forall>i. a \<le> i \<and> i < j \<longrightarrow> pending_at g i) \<Longrightarrow> g j = Inr r \<Longrightarrow>
   tx_status r \<noteq> ''PENDING'' \<Longrightarrow> snd (poll g ''PENDING'' a) = Inr (tx_status r, Suc j)"
proof (induction "j - a" arbitrary: a)
  case 0
  then have "a = j" by simp
  with 0 show ?case by (simp add: poll_step_Inr poll_final)
next
  case (Suc d)
  then have lt: "a < j" by simp
  with Suc.prems have "pending_at g a" by simp
  then obtain ra where ra: "g a = Inr ra" "tx_status ra = ''PENDING''"
    by (auto simp: pending_at_def split: sum.splits)
  from Suc.hyps(2) have d: "d = j - Suc a" by simp
  from lt Suc.prems(1) have am: "a < maxAttempts" by simp
  have "snd (poll g ''PENDING'' (Suc a)) = Inr (tx_status r, Suc j)"
    using Suc.hyps(1) [OF d Suc.prems(1)] lt Suc.prems by simp
  with am ra show ?case by (simp add: poll_step_Inr)
qed

lemma poll_all_pending:
  "a \<le> maxAttempts \<Longrightarrow> (\<forall>i. a \<le> i \<and> i < maxAttempts \<longrightarrow> pending_at g i) \<Longrightarrow>
   snd (poll g ''PENDING'' a) = Inr (''PENDING'', maxAttempts)"
proof (induction "maxAttempts - a" arbitrary: a)
  case 0
  then have "a = maxAttempts" by simp
  then show ?case by (simp add: poll_exhausted)
next
  case (Suc d)
  then have am: "a < maxAttempts" by simp
  with Suc.prems have "pending_at g a" by simp
  then obtain ra where ra: "g a = Inr ra" "tx_status ra = ''PENDING''"
    by (auto simp: pending_at_def split: sum.splits)
  from Suc.hyps(2) have d: "d = maxAttempts - Suc a" by simp
  have "snd (poll g ''PENDING'' (Suc a)) = Inr (''PENDING'', maxAttempts)"
    using Suc.hyps(1) [OF d] am Suc.prems by simp
  with am ra show ?case by (simp add: poll_step_Inr)
qed

lemma submit_accepted:
  assumes "accepted s st h"
  shows "snd (submit_and_confirm s) =
           (case snd (poll (getTransaction s) st 0) of
              Inl msg \<Rightarrow> Inl msg
            | Inr (st', n) \<Rightarrow>
                if st' \<noteq> ''SUCCESS'' then Inl (''Transaction failed with status: '' @ st')
                else (case sendTransaction s of Inr resp \<Rightarrow> Inr (resp, n) | Inl msg \<Rightarrow> Inl msg))"
    and "fst (submit_and_confirm s) =
           [Rpc ''getAccount'', Rpc ''simulateTransaction'', Rpc ''sendTransaction'']
           @ fst (poll (getTransaction s) st 0)"
proof -
  from assms obtain res resp where
    a: "contract_error s = None" "getAccount s = Inr ()" "build_error s = None"
       "simulateTransaction s = Inr (SimulationOk res)" "assemble_error s = None"
       "sendTransaction s = Inr resp" "send_status resp = st" "st \<noteq> ''ERROR''"
    by (auto simp: accepted_def split: sum.splits sim_response.splits)
  obtain tr r where p: "poll (getTransaction s) st 0 = (tr, r)" by (cases "poll (getTransaction s) st 0")
  show "snd (submit_and_confirm s) =
           (case snd (poll (getTransaction s) st 0) of
              Inl msg \<Rightarrow> Inl msg
            | Inr (st', n) \<Rightarrow>
                if st' \<noteq> ''SUCCESS'' then Inl (''Transaction failed with status: '' @ st')
                else (case sendTransaction s of Inr resp \<Rightarrow> Inr (resp, n) | Inl msg \<Rightarrow> Inl msg))"
    using a p
    by (cases r) (auto simp: submit_and_confirm_def local_step_def throw_eff_def return_eff_def)
  show "fst (submit_and_confirm s) =
           [Rpc ''getAccount'', Rpc ''simulateTransaction'', Rpc ''sendTransaction'']
           @ fst (poll (getTransaction s) st 0)"
    using a p
    by (cases r) (auto simp: submit_and_confirm_def local_step_def throw_eff_def return_eff_def)
qed

lemma snd_bind:
  "snd (bind_eff m f) = (case snd m of Inl msg \<Rightarrow> Inl msg | Inr x \<Rightarrow> snd (f x))"
  by (cases m) (auto simp: bind_eff_def split: sum.splits prod.splits)

lemma fst_bind:
  "fst (bind_eff m f) = (case snd m of Inl msg \<Rightarrow> fst m | Inr x \<Rightarrow> fst m @ fst (f x))"
  by (cases m) (auto simp: bind_eff_def split: sum.splits prod.splits)

lemma snd_try_catch:
  "snd (try_catch m h) = (case snd m of Inl msg \<Rightarrow> snd (h msg) | Inr x \<Rightarrow> Inr x)"
  by (cases m) (auto simp: try_catch_def split: sum.splits prod.splits)

lemma fst_try_catch:
  "fst (try_catch m h) = (case snd m of Inl msg \<Rightarrow> fst m @ fst (h msg) | Inr x \<Rightarrow> fst m)"
  by (cases m) (auto simp: try_catch_def split: sum.splits prod.splits)

lemma mint_unsigned:
  "badgeNFTService_mintBadgeNFT s e receiver tid uri None =
     ([], Inr \<lparr> success = True, txHash = sim_hash (now2 e) (rnd2 e),
                tokenId = JStr (''nft_'' @ show_nat (now1 e) @ ''_'' @ drop 7 (rnd1 e)),
                metadataUrl = uri \<rparr>)"
  by (simp add: badgeNFTService_mintBadgeNFT_def try_catch_def return_eff_def)

lemma register_unsigned:
  "testRegistryService_registerTestOnChain s e tid cr cid None =
     ([], Inr \<lparr> success = True, txHash = sim_hash (now1 e) (rnd1 e),
                testMetadata = \<lparr> testId = JStr tid, creator = JStr cr, metadataCid = JStr cid,
                                 createdAt = JNum (int (now2 e)) \<rparr> \<rparr>)"
  by (simp add: testRegistryService_registerTestOnChain_def try_catch_def return_eff_def)

lemma mint_signed_snd:
  "snd (badgeNFTService_mintBadgeNFT s e receiver tid uri (Some kp)) =
     (case snd (submit_and_confirm s) of
        Inl msg \<Rightarrow> Inl (''NFT minting failed: '' @ msg)
      | Inr (resp, n) \<Rightarrow>
          (case getTransaction s n of
             Inl msg \<Rightarrow> Inl (''NFT minting failed: '' @ msg)
           | Inr txr \<Rightarrow>
               (case snd (extract_token txr (placeholder_token tid (now1 e))) of
                  Inl msg \<Rightarrow> Inl (''NFT minting failed: '' @ msg)
                | Inr tok \<Rightarrow> Inr \<lparr> success = True, txHash = send_hash resp, tokenId = tok,
                                  metadataUrl = uri \<rparr>)))"
  by (simp add: badgeNFTService_mintBadgeNFT_def snd_try_catch snd_bind rpc_def effect_def
      throw_eff_def return_eff_def split: sum.splits prod.splits)

lemma register_signed_snd:
  "snd (testRegistryService_registerTestOnChain s e tid cr cid (Some kp)) =
     (case snd (submit_and_confirm s) of
        Inl msg \<Rightarrow> Inl (''Blockchain registration failed: '' @ msg)
      | Inr (resp, n) \<Rightarrow>
          Inr \<lparr> success = True, txHash = send_hash resp,
                testMetadata = \<lparr> testId = JStr tid, creator = JStr cr, metadataCid = JStr cid,
                                 createdAt = JNum (int (now1 e)) \<rparr> \<rparr>)"
  by (simp add: testRegistryService_registerTestOnChain_def snd_try_catch snd_bind rpc_def effect_def
      throw_eff_def return_eff_def split: sum.splits prod.splits)

lemma extract_token_cases:
  "snd (extract_token txr g) =
     Inr (if tx_status txr = ''SUCCESS'' \<and> resultMetaXdr txr
          then (case returnValue txr of Some (Inr v) \<Rightarrow> v | _ \<Rightarrow> JStr g)
          else JStr g)"
  "fst (extract_token txr g) =
     (if tx_status txr = ''SUCCESS'' \<and> resultMetaXdr txr
      then (case returnValue txr of
              Some (Inl msg) \<Rightarrow> [Console_warn ''Could not parse token ID from result, using generated ID'']
            | _ \<Rightarrow> [])
      else [])"
  by (auto simp: extract_token_def return_eff_def split: option.splits sum.splits)

lemma mint_signed_fst:
  "snd (submit_and_confirm s) = Inr (resp, n) \<Longrightarrow> getTransaction s n = Inr txr \<Longrightarrow>
   fst (badgeNFTService_mintBadgeNFT s e receiver tid uri (Some kp)) =
     fst (submit_and_confirm s) @ [Rpc ''getTransaction'']
       @ fst (extract_token txr (placeholder_token tid (now1 e)))"
  by (simp add: badgeNFTService_mintBadgeNFT_def fst_try_catch snd_bind fst_bind rpc_def
      extract_token_cases return_eff_def)

lemma placeholder_token_inj:
  "placeholder_token tid a = placeholder_token tid b \<longleftrightarrow> a = b"
  by (auto simp: placeholder_token_def dest: show_nat_inj)

section \<open>Confirmation, decoding and simulation mode\<close>

lemma accepting_sdk_simps:
  "getTransaction (accepting_sdk g) = g"
  "sendTransaction (accepting_sdk g) =
     Inr \<lparr> send_status = ''PENDING'', send_hash = ''9f3c'', errorResult = [] \<rparr>"
  "accepted (accepting_sdk g) ''PENDING'' ''9f3c''"
  by (simp_all add: accepted_def accepting_sdk_def)

lemma second_sdk_simps:
  "getTransaction (second_sdk g) = g"
  "accepted (second_sdk g) ''PENDING'' ''77aa''"
  by (simp_all add: accepted_def second_sdk_def accepting_sdk_def)

lemma exhausted_fails:
  assumes "accepted s ''PENDING'' h" and "\<forall>i<maxAttempts. pending_at (getTransaction s) i"
  shows "snd (submit_and_confirm s) = Inl ''Transaction failed with status: PENDING''"
proof -
  from assms(2) have "snd (poll (getTransaction s) ''PENDING'' 0) = Inr (''PENDING'', maxAttempts)"
    by (intro poll_all_pending) simp_all
  with submit_accepted(1) [OF assms(1)] show ?thesis by simp
qed

text \<open>
  C6, as the code has it. The confirmation loop makes at most 30 polls, each after a
  wait of 1000 ms, and always returns. It polls while the status is \<^verbatim>\<open>PENDING\<close>: it
  stops at the first status that is anything else (\<^verbatim>\<open>SUCCESS\<close>, \<^verbatim>\<open>FAILED\<close> or any other
  value), and does not poll at all when the submission's status is not \<^verbatim>\<open>PENDING\<close>.
  When all 30 polls answer \<^verbatim>\<open>PENDING\<close> it has waited 30000 ms and the operation fails
  with \<^verbatim>\<open>Transaction failed with status: PENDING\<close>, the error of every status other
  than \<^verbatim>\<open>SUCCESS\<close>.
\<close>

theorem confirmation_loop_bounded:
  "maxAttempts = 30 \<and>
   polls (fst (poll g st a)) \<le> maxAttempts - a \<and>
   slept_ms (fst (poll g st a)) = 1000 * polls (fst (poll g st a)) \<and>
   (st \<noteq> ''PENDING'' \<longrightarrow> poll g st a = ([], Inr (st, a))) \<and>
   (\<forall>st' n. a \<le> maxAttempts \<and> snd (poll g st a) = Inr (st', n) \<longrightarrow>
      (st' \<noteq> ''PENDING'' \<or> n = maxAttempts) \<and> polls (fst (poll g st a)) = n - a) \<and>
   (j < maxAttempts \<and> (\<forall>i<j. pending_at g i) \<and> g j = Inr r \<and> tx_status r \<noteq> ''PENDING'' \<longrightarrow>
      snd (poll g ''PENDING'' 0) = Inr (tx_status r, Suc j) \<and>
      polls (fst (poll g ''PENDING'' 0)) = Suc j) \<and>
   ((\<forall>i<maxAttempts. pending_at g i) \<longrightarrow>
      snd (poll g ''PENDING'' 0) = Inr (''PENDING'', maxAttempts) \<and>
      polls (fst (poll g ''PENDING'' 0)) = maxAttempts \<and>
      slept_ms (fst (poll g ''PENDING'' 0)) = 1000 * maxAttempts) \<and>
   (accepted s ''PENDING'' h \<and> (\<forall>i<maxAttempts. pending_at (getTransaction s) i) \<longrightarrow>
      snd (badgeNFTService_mintBadgeNFT s e receiver tid uri (Some kp)) =
        Inl ''NFT minting failed: Transaction failed with status: PENDING'' \<and>
      snd (testRegistryService_registerTestOnChain s e tid cr cid (Some kp)) =
        Inl ''Blockchain registration failed: Transaction failed with status: PENDING'')"
proof -
  have c1: "maxAttempts = 30" by (simp add: maxAttempts_def)
  have c4: "st \<noteq> ''PENDING'' \<longrightarrow> poll g st a = ([], Inr (st, a))"
    by (simp add: poll_final)
  have c5: "\<forall>st' n. a \<le> maxAttempts \<and> snd (poll g st a) = Inr (st', n) \<longrightarrow>
      (st' \<noteq> ''PENDING'' \<or> n = maxAttempts) \<and> polls (fst (poll g st a)) = n - a"
    using poll_returns [of g st a] by blast
  have c6: "j < maxAttempts \<and> (\<forall>i<j. pending_at g i) \<and> g j = Inr r \<and> tx_status r \<noteq> ''PENDING'' \<longrightarrow>
      snd (poll g ''PENDING'' 0) = Inr (tx_status r, Suc j) \<and>
      polls (fst (poll g ''PENDING'' 0)) = Suc j"
  proof (intro impI)
    assume h: "j < maxAttempts \<and> (\<forall>i<j. pending_at g i) \<and> g j = Inr r \<and> tx_status r \<noteq> ''PENDING''"
    then have s: "snd (poll g ''PENDING'' 0) = Inr (tx_status r, Suc j)"
      by (intro poll_until) simp_all
    from poll_returns [OF s] show "snd (poll g ''PENDING'' 0) = Inr (tx_status r, Suc j) \<and>
      polls (fst (poll g ''PENDING'' 0)) = Suc j" using s by simp
  qed
  have c7: "(\<forall>i<maxAttempts. pending_at g i) \<longrightarrow>
      snd (poll g ''PENDING'' 0) = Inr (''PENDING'', maxAttempts) \<and>
      polls (fst (poll g ''PENDING'' 0)) = maxAttempts \<and>
      slept_ms (fst (poll g ''PENDING'' 0)) = 1000 * maxAttempts"
  proof (intro impI)
    assume h: "\<forall>i<maxAttempts. pending_at g i"
    then have s: "snd (poll g ''PENDING'' 0) = Inr (''PENDING'', maxAttempts)"
      by (intro poll_all_pending) simp_all
    from poll_returns [OF s] have "polls (fst (poll g ''PENDING'' 0)) = maxAttempts" by simp
    with s poll_sleeps [of g "''PENDING''" 0]
    show "snd (poll g ''PENDING'' 0) = Inr (''PENDING'', maxAttempts) \<and>
      polls (fst (poll g ''PENDING'' 0)) = maxAttempts \<and>
      slept_ms (fst (poll g ''PENDING'' 0)) = 1000 * maxAttempts" by simp
  qed
  have c8: "accepted s ''PENDING'' h \<and> (\<forall>i<maxAttempts. pending_at (getTransaction s) i) \<longrightarrow>
      snd (badgeNFTService_mintBadgeNFT s e receiver tid uri (Some kp)) =
        Inl ''NFT minting failed: Transaction failed with status: PENDING'' \<and>
      snd (testRegistryService_registerTestOnChain s e tid cr cid (Some kp)) =
        Inl ''Blockchain registration failed: Transaction failed with status: PENDING''"
    by (auto simp: mint_signed_snd register_signed_snd dest!: exhausted_fails)
  from c1 poll_count [of g st a] poll_sleeps [of g st a] c4 c5 c6 c7 c8 show ?thesis
    by (intro conjI)
qed


text \<open>C6 on a server that answers the third poll, and on one that never settles.\<close>

theorem confirmation_loop_bounded_witness:
  "snd (poll (pending_then 2 (tx_with_status ''FAILED'')) ''PENDING'' 0) = Inr (''FAILED'', 3) \<and>
   polls (fst (poll (pending_then 2 (tx_with_status ''FAILED'')) ''PENDING'' 0)) = 3 \<and>
   snd (poll (pending_then 30 (tx_with_status ''SUCCESS'')) ''PENDING'' 0) = Inr (''PENDING'', 30) \<and>
   polls (fst (poll (pending_then 30 (tx_with_status ''SUCCESS'')) ''PENDING'' 0)) = 30 \<and>
   slept_ms (fst (poll (pending_then 30 (tx_with_status ''SUCCESS'')) ''PENDING'' 0)) = 30000 \<and>
   snd (badgeNFTService_mintBadgeNFT (accepting_sdk (pending_then 30 (tx_with_status ''SUCCESS'')))
          (entropy_at 5) ''GA'' ''t1'' ''https://store/t1_GA.json'' (Some ''kp'')) =
     Inl ''NFT minting failed: Transaction failed with status: PENDING''"
proof -
  let ?g = "pending_then 2 (tx_with_status ''FAILED'')"
  let ?p = "pending_then 30 (tx_with_status ''SUCCESS'')"
  have m: "maxAttempts = 30" by (simp add: maxAttempts_def)
  have h1: "2 < maxAttempts \<and> (\<forall>i<2. pending_at ?g i) \<and> ?g 2 = Inr (tx_with_status ''FAILED'') \<and>
      tx_status (tx_with_status ''FAILED'') \<noteq> ''PENDING''"
    by (simp add: m pending_at_def pending_then_def tx_with_status_def)
  have h2: "\<forall>i<maxAttempts. pending_at ?p i"
    by (simp add: m pending_at_def pending_then_def tx_with_status_def)
  have h3: "accepted (accepting_sdk ?p) ''PENDING'' ''9f3c'' \<and>
      (\<forall>i<maxAttempts. pending_at (getTransaction (accepting_sdk ?p)) i)"
    using h2 by (simp add: accepted_def accepting_sdk_def)
  have a: "snd (poll ?g ''PENDING'' 0) = Inr (tx_status (tx_with_status ''FAILED''), Suc 2) \<and>
      polls (fst (poll ?g ''PENDING'' 0)) = Suc 2"
    using confirmation_loop_bounded [where g = ?g and j = 2 and r = "tx_with_status ''FAILED''"] h1
    by blast
  have b: "snd (poll ?p ''PENDING'' 0) = Inr (''PENDING'', maxAttempts) \<and>
      polls (fst (poll ?p ''PENDING'' 0)) = maxAttempts \<and>
      slept_ms (fst (poll ?p ''PENDING'' 0)) = 1000 * maxAttempts"
    using confirmation_loop_bounded [where g = ?p] h2 by blast
  have c: "snd (badgeNFTService_mintBadgeNFT (accepting_sdk ?p) (entropy_at 5) ''GA'' ''t1''
          ''https://store/t1_GA.json'' (Some ''kp'')) =
     Inl ''NFT minting failed: Transaction failed with status: PENDING''"
    using confirmation_loop_bounded [where s = "accepting_sdk ?p" and h = "''9f3c''"
        and e = "entropy_at 5" and receiver = "''GA''" and tid = "''t1''"
        and uri = "''https://store/t1_GA.json''" and kp = "''kp''"] h3
    by blast
  from a b c show ?thesis by (simp add: m tx_with_status_def)
qed

text \<open>
  C6 as stated fails: when the first poll answers \<^verbatim>\<open>NOT_FOUND\<close> the loop stops after
  one attempt, with a status that is neither \<^verbatim>\<open>SUCCESS\<close> nor \<^verbatim>\<open>FAILED\<close> and 29 attempts
  unused, and the mint fails at once.
\<close>

theorem confirmation_loop_counterexample:
  "poll (pending_then 0 (tx_with_status ''NOT_FOUND'')) ''PENDING'' 0 =
     ([Sleep 1000, Rpc ''getTransaction''], Inr (''NOT_FOUND'', 1)) \<and>
   snd (badgeNFTService_mintBadgeNFT (accepting_sdk (pending_then 0 (tx_with_status ''NOT_FOUND'')))
          (entropy_at 5) ''GA'' ''t1'' ''https://store/t1_GA.json'' (Some ''kp'')) =
     Inl ''NFT minting failed: Transaction failed with status: NOT_FOUND''"
proof -
  let ?g = "pending_then 0 (tx_with_status ''NOT_FOUND'')"
  have g0: "?g 0 = Inr (tx_with_status ''NOT_FOUND'')" by (simp add: pending_then_def)
  have st: "tx_status (tx_with_status ''NOT_FOUND'') = ''NOT_FOUND''" by (simp add: tx_with_status_def)
  have "poll ?g ''PENDING'' 0 =
     (Sleep 1000 # Rpc ''getTransaction'' # fst (poll ?g ''NOT_FOUND'' (Suc 0)),
      snd (poll ?g ''NOT_FOUND'' (Suc 0)))"
    using poll_step_Inr [of 0 ?g, OF _ g0] by (simp add: maxAttempts_def st)
  moreover have "poll ?g ''NOT_FOUND'' (Suc 0) = ([], Inr (''NOT_FOUND'', Suc 0))"
    by (rule poll_final) simp
  ultimately have p: "poll ?g ''PENDING'' 0 =
     ([Sleep 1000, Rpc ''getTransaction''], Inr (''NOT_FOUND'', 1))" by simp
  have a: "accepted (accepting_sdk ?g) ''PENDING'' ''9f3c''"
    by (simp add: accepted_def accepting_sdk_def)
  have g: "getTransaction (accepting_sdk ?g) = ?g"
    by (simp add: accepting_sdk_def)
  have "snd (submit_and_confirm (accepting_sdk ?g)) = Inl ''Transaction failed with status: NOT_FOUND''"
    using submit_accepted(1) [OF a] p by (simp add: g)
  then have "snd (badgeNFTService_mintBadgeNFT (accepting_sdk ?g)
          (entropy_at 5) ''GA'' ''t1'' ''https://store/t1_GA.json'' (Some ''kp'')) =
     Inl ''NFT minting failed: Transaction failed with status: NOT_FOUND''"
    by (simp add: mint_signed_snd)
  with p show ?thesis by simp
qed

lemma mint_decode_failure:
  assumes a: "accepted s st h" and p: "snd (poll (getTransaction s) st 0) = Inr (''SUCCESS'', n)"
    and g: "getTransaction s n = Inr txr" and t: "tx_status txr = ''SUCCESS''" "resultMetaXdr txr"
      "returnValue txr = Some (Inl err)"
  shows "snd (badgeNFTService_mintBadgeNFT s e receiver tid uri (Some kp)) =
        Inr \<lparr> success = True, txHash = h, tokenId = JStr (placeholder_token tid (now1 e)),
              metadataUrl = uri \<rparr> \<and>
      Console_warn ''Could not parse token ID from result, using generated ID''
        \<in> set (fst (badgeNFTService_mintBadgeNFT s e receiver tid uri (Some kp)))"
proof -
  from a obtain resp where r: "sendTransaction s = Inr resp" "send_hash resp = h"
    by (auto simp: accepted_def split: sum.splits)
  with submit_accepted(1) [OF a] p have sc: "snd (submit_and_confirm s) = Inr (resp, n)" by simp
  from sc g t r show ?thesis
    by (simp add: mint_signed_snd mint_signed_fst extract_token_cases)
qed

lemma poll_confirmed_at_second:
  "snd (poll (pending_then 1 (tx_success rv)) ''PENDING'' 0) = Inr (''SUCCESS'', 2)"
proof -
  let ?r = "tx_success rv"
  let ?g = "pending_then 1 ?r"
  have "snd (poll ?g ''PENDING'' 0) = Inr (tx_status ?r, Suc 1)"
    by (rule poll_until [where j = 1])
      (simp_all add: maxAttempts_def pending_at_def pending_then_def tx_with_status_def tx_success_def)
  moreover have "tx_status ?r = ''SUCCESS''" by (simp add: tx_success_def)
  moreover have "Suc 1 = 2" by simp
  ultimately show ?thesis by metis
qed

text \<open>
  C9, as the code has it. In signed mode, when the transaction is confirmed and
  decoding its return value throws, the mint still succeeds with the hash of the
  submitted transaction, the token id is the generated \<^verbatim>\<open>nft_<testId>_<clock>\<close>, and
  the warning is logged. The generated id is made of the test id and the clock
  reading alone, whoever the receiver and whatever the transaction: for one test it
  differs exactly when the clock readings differ.
\<close>

theorem decode_failure_keeps_mint:
  "(accepted s st h \<and> snd (poll (getTransaction s) st 0) = Inr (''SUCCESS'', n) \<and>
    getTransaction s n = Inr txr \<and> tx_status txr = ''SUCCESS'' \<and> resultMetaXdr txr \<and>
    returnValue txr = Some (Inl err) \<longrightarrow>
      snd (badgeNFTService_mintBadgeNFT s e receiver tid uri (Some kp)) =
        Inr \<lparr> success = True, txHash = h, tokenId = JStr (placeholder_token tid (now1 e)),
              metadataUrl = uri \<rparr> \<and>
      Console_warn ''Could not parse token ID from result, using generated ID''
        \<in> set (fst (badgeNFTService_mintBadgeNFT s e receiver tid uri (Some kp)))) \<and>
   placeholder_token tid t = ''nft_'' @ tid @ ''_'' @ show_nat t \<and>
   (placeholder_token tid t = placeholder_token tid t' \<longleftrightarrow> t = t')"
proof -
  have "snd (badgeNFTService_mintBadgeNFT s e receiver tid uri (Some kp)) =
        Inr \<lparr> success = True, txHash = h, tokenId = JStr (placeholder_token tid (now1 e)),
              metadataUrl = uri \<rparr> \<and>
      Console_warn ''Could not parse token ID from result, using generated ID''
        \<in> set (fst (badgeNFTService_mintBadgeNFT s e receiver tid uri (Some kp)))"
    if "accepted s st h" and "snd (poll (getTransaction s) st 0) = Inr (''SUCCESS'', n)"
      and "getTransaction s n = Inr txr" and "tx_status txr = ''SUCCESS''" and "resultMetaXdr txr"
      and "returnValue txr = Some (Inl err)"
    using that by (rule mint_decode_failure)
  moreover have "placeholder_token tid t = ''nft_'' @ tid @ ''_'' @ show_nat t"
    by (simp add: placeholder_token_def)
  moreover have "placeholder_token tid t = placeholder_token tid t' \<longleftrightarrow> t = t'"
    by (rule placeholder_token_inj)
  ultimately show ?thesis by blast
qed

text \<open>C9 on a transaction confirmed at the second poll whose return value does not decode.\<close>

theorem decode_failure_keeps_mint_witness:
  "snd (badgeNFTService_mintBadgeNFT
          (accepting_sdk (pending_then 1 (tx_success (Some (Inl ''bad return value'')))))
          (entropy_at 5) ''GA'' ''t1'' ''https://store/t1_GA.json'' (Some ''kp'')) =
     Inr \<lparr> success = True, txHash = ''9f3c'', tokenId = JStr ''nft_t1_5'',
           metadataUrl = ''https://store/t1_GA.json'' \<rparr> \<and>
   Console_warn ''Could not parse token ID from result, using generated ID''
     \<in> set (fst (badgeNFTService_mintBadgeNFT
          (accepting_sdk (pending_then 1 (tx_success (Some (Inl ''bad return value'')))))
          (entropy_at 5) ''GA'' ''t1'' ''https://store/t1_GA.json'' (Some ''kp'')))"
proof -
  let ?r = "tx_success (Some (Inl ''bad return value''))"
  let ?g = "pending_then 1 ?r"
  have "snd (poll ?g ''PENDING'' 0) = Inr (tx_status ?r, Suc 1)"
    by (rule poll_until [where j = 1])
      (simp_all add: maxAttempts_def pending_at_def pending_then_def tx_with_status_def tx_success_def)
  moreover have "tx_status ?r = ''SUCCESS''" by (simp add: tx_success_def)
  moreover have "Suc 1 = 2" by simp
  ultimately have p: "snd (poll ?g ''PENDING'' 0) = Inr (''SUCCESS'', 2)" by metis
  have t: "?g 2 = Inr ?r"
    by (simp add: pending_then_def)
  have hyp: "accepted (accepting_sdk ?g) ''PENDING'' ''9f3c'' \<and>
      snd (poll (getTransaction (accepting_sdk ?g)) ''PENDING'' 0) = Inr (''SUCCESS'', 2) \<and>
      getTransaction (accepting_sdk ?g) 2 = Inr ?r \<and> tx_status ?r = ''SUCCESS'' \<and>
      resultMetaXdr ?r \<and> returnValue ?r = Some (Inl ''bad return value'')"
    unfolding accepting_sdk_simps using p t accepting_sdk_simps(3) [of ?g]
    by (simp add: tx_success_def)
  note w = decode_failure_keeps_mint [where s = "accepting_sdk ?g" and st = "''PENDING''"
      and h = "''9f3c''" and n = 2 and txr = ?r
      and err = "''bad return value''" and e = "entropy_at 5" and receiver = "''GA''"
      and tid = "''t1''" and uri = "''https://store/t1_GA.json''" and kp = "''kp''",
      THEN conjunct1, THEN mp, OF hyp]
  have "placeholder_token ''t1'' (now1 (entropy_at 5)) = ''nft_t1_5''"
    by (simp add: placeholder_token_def entropy_at_def show_nat_small digit_char_def)
  with w show ?thesis by simp
qed

text \<open>
  C9 as stated fails for the uniqueness of the generated id: two signed mints of the
  test \<^verbatim>\<open>t1\<close>, for different receivers and confirmed in different transactions, that
  read the clock in the same millisecond both fall back to the token id \<^verbatim>\<open>nft_t1_5\<close>.
\<close>

theorem generated_token_collision_counterexample:
  "snd (badgeNFTService_mintBadgeNFT
          (accepting_sdk (pending_then 1 (tx_success (Some (Inl ''bad return value'')))))
          (entropy_at 5) ''GA'' ''t1'' ''https://store/t1_GA.json'' (Some ''kp'')) =
     Inr \<lparr> success = True, txHash = ''9f3c'', tokenId = JStr ''nft_t1_5'',
           metadataUrl = ''https://store/t1_GA.json'' \<rparr> \<and>
   snd (badgeNFTService_mintBadgeNFT
          (second_sdk (pending_then 1 (tx_success (Some (Inl ''bad return value'')))))
          (entropy_at 5) ''GB'' ''t1'' ''https://store/t1_GB.json'' (Some ''kp'')) =
     Inr \<lparr> success = True, txHash = ''77aa'', tokenId = JStr ''nft_t1_5'',
           metadataUrl = ''https://store/t1_GB.json'' \<rparr>"
proof -
  let ?r = "tx_success (Some (Inl ''bad return value''))"
  let ?g = "pending_then 1 ?r"
  have p: "snd (poll ?g ''PENDING'' 0) = Inr (''SUCCESS'', 2)"
    by (rule poll_confirmed_at_second)
  have t: "?g 2 = Inr ?r" by (simp add: pending_then_def)
  have r: "tx_status ?r = ''SUCCESS''" "resultMetaXdr ?r"
    "returnValue ?r = Some (Inl ''bad return value'')"
    by (simp_all add: tx_success_def)
  have k: "placeholder_token ''t1'' (now1 (entropy_at 5)) = ''nft_t1_5''"
    by (simp add: placeholder_token_def entropy_at_def show_nat_small digit_char_def)
  have a: "snd (badgeNFTService_mintBadgeNFT (accepting_sdk ?g) (entropy_at 5) ''GA'' ''t1''
          ''https://store/t1_GA.json'' (Some ''kp'')) =
     Inr \<lparr> success = True, txHash = ''9f3c'', tokenId = JStr ''nft_t1_5'',
           metadataUrl = ''https://store/t1_GA.json'' \<rparr>"
    using mint_decode_failure [where s = "accepting_sdk ?g" and st = "''PENDING''" and h = "''9f3c''"
        and n = 2 and txr = ?r and err = "''bad return value''" and e = "entropy_at 5"
        and receiver = "''GA''" and tid = "''t1''" and uri = "''https://store/t1_GA.json''"
        and kp = "''kp''", THEN conjunct1]
      p t r
    unfolding accepting_sdk_simps k by (simp add: accepting_sdk_simps)
  have b: "snd (badgeNFTService_mintBadgeNFT (second_sdk ?g) (entropy_at 5) ''GB'' ''t1''
          ''https://store/t1_GB.json'' (Some ''kp'')) =
     Inr \<lparr> success = True, txHash = ''77aa'', tokenId = JStr ''nft_t1_5'',
           metadataUrl = ''https://store/t1_GB.json'' \<rparr>"
    using mint_decode_failure [where s = "second_sdk ?g" and st = "''PENDING''" and h = "''77aa''"
        and n = 2 and txr = ?r and err = "''bad return value''" and e = "entropy_at 5"
        and receiver = "''GB''" and tid = "''t1''" and uri = "''https://store/t1_GB.json''"
        and kp = "''kp''", THEN conjunct1]
      p t r
    unfolding second_sdk_simps k by (simp add: second_sdk_simps)
  from a b show ?thesis by (intro conjI)
qed

text \<open>
  C4, as the code has it. Without a signing keypair the mint and the registration of
  the SDK services return at once, with no effect at all (no call of the RPC server),
  a result with \<open>success = True\<close> and a \<open>txHash\<close> that starts with \<^verbatim>\<open>sim_\<close>; so does
  the simplified NFT service once its metadata upload succeeds. The token id of a
  simulated mint starts with \<^verbatim>\<open>nft_\<close>, and so does the id the signed mode generates.
\<close>

theorem unsigned_mode_is_offline:
  "badgeNFTService_mintBadgeNFT s e receiver tid uri None =
     ([], Inr \<lparr> success = True, txHash = ''sim_'' @ show_nat (now2 e) @ ''_'' @ drop 7 (rnd2 e),
                tokenId = JStr (''nft_'' @ show_nat (now1 e) @ ''_'' @ drop 7 (rnd1 e)),
                metadataUrl = uri \<rparr>) \<and>
   testRegistryService_registerTestOnChain s e tid cr cid None =
     ([], Inr \<lparr> success = True, txHash = ''sim_'' @ show_nat (now1 e) @ ''_'' @ drop 7 (rnd1 e),
                testMetadata = \<lparr> testId = JStr tid, creator = JStr cr, metadataCid = JStr cid,
                                 createdAt = JNum (int (now2 e)) \<rparr> \<rparr>) \<and>
   (storage (JStr tid) (JStr receiver) title score totalScore = Inr url \<longrightarrow>
      nftService_mintBadgeNFT storage e (JStr receiver) (JStr tid) title score totalScore =
        Inr \<lparr> success = True, txHash = ''sim_'' @ show_nat (now2 e) @ ''_'' @ drop 7 (rnd1 e),
              tokenId = JStr (''nft_'' @ tid @ ''_'' @ show_nat (now1 e)), metadataUrl = url \<rparr>) \<and>
   placeholder_token tid t = ''nft_'' @ tid @ ''_'' @ show_nat t"
  by (simp add: mint_unsigned register_unsigned sim_hash_def nftService_mintBadgeNFT_def
      placeholder_token_def)

text \<open>C4 on concrete calls.\<close>

theorem unsigned_mode_is_offline_witness:
  "badgeNFTService_mintBadgeNFT (accepting_sdk (pending_then 0 (tx_success None))) (entropy_at 5)
       ''GA'' ''t1'' ''https://store/t1_GA.json'' None =
     ([], Inr \<lparr> success = True, txHash = ''sim_5_nop'', tokenId = JStr ''nft_5_fgh'',
                metadataUrl = ''https://store/t1_GA.json'' \<rparr>) \<and>
   nftService_mintBadgeNFT storage_ok (entropy_at 5) (JStr ''GA'') (JStr ''t1'') JUndefined
       JUndefined JUndefined =
     Inr \<lparr> success = True, txHash = ''sim_5_fgh'', tokenId = JStr ''nft_t1_5'',
           metadataUrl = ''https://store/t1_GA.json'' \<rparr>"
proof -
  have h: "storage_ok (JStr ''t1'') (JStr ''GA'') JUndefined JUndefined JUndefined =
      Inr ''https://store/t1_GA.json''"
    by (simp add: storage_ok_def)
  have n: "show_nat (now1 (entropy_at 5)) = ''5''" "show_nat (now2 (entropy_at 5)) = ''5''"
    "drop 7 (rnd1 (entropy_at 5)) = ''fgh''" "drop 7 (rnd2 (entropy_at 5)) = ''nop''"
    by (simp_all add: entropy_at_def show_nat_small digit_char_def)
  from unsigned_mode_is_offline [where s = "accepting_sdk (pending_then 0 (tx_success None))"
      and e = "entropy_at 5" and receiver = "''GA''" and tid = "''t1''"
      and uri = "''https://store/t1_GA.json''" and storage = storage_ok and title = JUndefined
      and score = JUndefined and totalScore = JUndefined and url = "''https://store/t1_GA.json''"] h
  show ?thesis by (simp add: n)
qed

text \<open>
  C4 as stated fails for the token id: the simulated mint returns \<^verbatim>\<open>nft_5_7\<close>, which
  does not carry the marker \<^verbatim>\<open>sim_\<close>, and a signed mint of test \<^verbatim>\<open>5\<close> at clock reading
  7 returns the very same token id.
\<close>

theorem unsigned_token_has_no_marker_counterexample:
  "map_sum id tokenId (snd (badgeNFTService_mintBadgeNFT (accepting_sdk (pending_then 0 (tx_success None)))
      \<lparr> now1 = 5, now2 = 5, rnd1 = ''0.abcde7'', rnd2 = ''0.ijklmnop'' \<rparr>
      ''GA'' ''t1'' ''https://store/t1_GA.json'' None)) = Inr (JStr ''nft_5_7'') \<and>
   \<not> prefix ''sim_'' ''nft_5_7'' \<and>
   map_sum id tokenId (snd (badgeNFTService_mintBadgeNFT (accepting_sdk (pending_then 0 (tx_success None)))
      (entropy_at 7) ''GA'' ''5'' ''https://store/5_GA.json'' (Some ''kp''))) = Inr (JStr ''nft_5_7'')"
proof -
  let ?g = "pending_then 0 (tx_success None)"
  have g: "getTransaction (accepting_sdk ?g) = ?g" by (simp add: accepting_sdk_def)
  have a: "accepted (accepting_sdk ?g) ''PENDING'' ''9f3c''"
    by (simp add: accepted_def accepting_sdk_def)
  have "snd (poll ?g ''PENDING'' 0) = Inr (tx_status (tx_success None), Suc 0)"
    by (rule poll_until [where j = 0])
      (simp_all add: maxAttempts_def pending_then_def tx_success_def)
  then have p: "snd (poll ?g ''PENDING'' 0) = Inr (''SUCCESS'', 1)"
    by (simp add: tx_success_def)
  have t: "?g (Suc 0) = Inr (tx_success None)"
    by (simp add: pending_then_def)
  have s: "sendTransaction (accepting_sdk ?g) =
      Inr \<lparr> send_status = ''PENDING'', send_hash = ''9f3c'', errorResult = [] \<rparr>"
    by (simp add: accepting_sdk_def)
  have sc: "snd (submit_and_confirm (accepting_sdk ?g)) =
      Inr (\<lparr> send_status = ''PENDING'', send_hash = ''9f3c'', errorResult = [] \<rparr>, 1)"
    using submit_accepted(1) [OF a] p by (simp add: g s)
  have x: "snd (extract_token (tx_success None) (placeholder_token ''5'' (now1 (entropy_at 7)))) =
      Inr (JStr ''nft_5_7'')"
    by (simp add: extract_token_cases tx_success_def placeholder_token_def entropy_at_def
        show_nat_small digit_char_def)
  have signed: "map_sum id tokenId (snd (badgeNFTService_mintBadgeNFT (accepting_sdk ?g)
      (entropy_at 7) ''GA'' ''5'' ''https://store/5_GA.json'' (Some ''kp''))) = Inr (JStr ''nft_5_7'')"
    by (simp add: mint_signed_snd sc g t x)
  have unsigned: "map_sum id tokenId (snd (badgeNFTService_mintBadgeNFT (accepting_sdk ?g)
      \<lparr> now1 = 5, now2 = 5, rnd1 = ''0.abcde7'', rnd2 = ''0.ijklmnop'' \<rparr>
      ''GA'' ''t1'' ''https://store/t1_GA.json'' None)) = Inr (JStr ''nft_5_7'')"
    by (simp add: mint_unsigned show_nat_small digit_char_def)
  have "\<not> prefix ''sim_'' ''nft_5_7''" by simp
  with signed unsigned show ?thesis by blast
qed

section \<open>Read-only queries\<close>

lemma snd_local_step: "snd (local_step err) = (case err of None \<Rightarrow> Inr () | Some msg \<Rightarrow> Inl msg)"
  by (simp add: local_step_def return_eff_def throw_eff_def split: option.splits)

lemma snd_simulate_read:
  "snd (simulate_read s) =
     (case contract_error s of Some msg \<Rightarrow> Inl msg | None \<Rightarrow>
      case build_error s of Some msg \<Rightarrow> Inl msg | None \<Rightarrow>
      case simulateTransaction s of
        Inl msg \<Rightarrow> Inl msg
      | Inr (SimulationError err) \<Rightarrow> Inr None
      | Inr (SimulationOk None) \<Rightarrow> Inr None
      | Inr (SimulationOk (Some (Inl msg))) \<Rightarrow> Inl msg
      | Inr (SimulationOk (Some (Inr v))) \<Rightarrow> Inr (Some v))"
  by (simp add: simulate_read_def snd_bind snd_try_catch snd_local_step rpc_def return_eff_def
      split: option.splits sum.splits sim_response.splits)

lemma read_fails_iff:
  "read_fails s \<longleftrightarrow> (\<forall>v. snd (simulate_read s) \<noteq> Inr (Some v))"
  by (auto simp: read_fails_def snd_simulate_read split: option.splits sum.splits sim_response.splits)

lemma getTestFromChain_total: "\<exists>v. snd (getTestFromChain s tid) = Inr v"
  by (simp add: getTestFromChain_def snd_try_catch snd_bind effect_def return_eff_def
      split: sum.splits option.splits)

lemma getNFTMetadata_total: "\<exists>v. snd (getNFTMetadata s tok) = Inr v"
  by (simp add: getNFTMetadata_def snd_try_catch snd_bind effect_def return_eff_def
      split: sum.splits option.splits)

lemma listTestsFromChain_total: "\<exists>v. snd (listTestsFromChain s) = Inr v"
  by (simp add: listTestsFromChain_def snd_try_catch snd_bind effect_def return_eff_def
      split: sum.splits option.splits)

lemma queries_default_on_failure:
  assumes "read_fails s"
  shows "snd (getTestFromChain s tid) = Inr None"
    and "snd (getNFTMetadata s tok) = Inr JNull"
    and "snd (listTestsFromChain s) = Inr []"
proof -
  have "snd (simulate_read s) = Inr None \<or> (\<exists>msg. snd (simulate_read s) = Inl msg)"
  proof (cases "snd (simulate_read s)")
    case (Inl a)
    then show ?thesis by simp
  next
    case (Inr b)
    with assms show ?thesis unfolding read_fails_iff by (cases b) auto
  qed
  then show "snd (getTestFromChain s tid) = Inr None"
    and "snd (getNFTMetadata s tok) = Inr JNull"
    and "snd (listTestsFromChain s) = Inr []"
    by (auto simp: getTestFromChain_def getNFTMetadata_def listTestsFromChain_def snd_try_catch
        snd_bind effect_def return_eff_def)
qed

lemma to_test_metadata_null:
  "x = JNull \<or> x = JUndefined \<Longrightarrow> \<exists>msg. snd (to_test_metadata x) = Inl msg"
  by (auto simp: to_test_metadata_def get_prop_def)

lemma map_eff_throws:
  "\<exists>x\<in>set items. \<exists>msg. snd (f x) = Inl msg \<Longrightarrow> \<exists>msg. snd (map_eff f items) = Inl msg"
proof (induction items)
  case Nil
  then show ?case by simp
next
  case (Cons a items)
  then show ?case
    by (cases "snd (f a)"; cases "snd (map_eff f items)") (auto simp: snd_bind return_eff_def)
qed

lemma list_with_null_entry:
  assumes "snd (simulate_read s) = Inr (Some (JArr items))"
    and "\<exists>x\<in>set items. x = JNull \<or> x = JUndefined"
  shows "snd (listTestsFromChain s) = Inr []"
proof -
  from assms(2) obtain x where x: "x \<in> set items" "x = JNull \<or> x = JUndefined" by auto
  from x(1) to_test_metadata_null [OF x(2)]
  have "\<exists>x\<in>set items. \<exists>msg. snd (to_test_metadata x) = Inl msg" by (rule bexI [rotated])
  from map_eff_throws [OF this]
  obtain msg where "snd (map_eff to_test_metadata items) = Inl msg" by (rule exE)
  with assms(1) show ?thesis
    by (simp add: listTestsFromChain_def snd_try_catch snd_bind effect_def return_eff_def)
qed

text \<open>
  C10. The three read-only queries never throw: every run returns a value. When the
  query fails inside (the SDK or the simulation request throws, the simulation
  reports an error or has no result, or decoding throws) \<^verbatim>\<open>getTestFromChain\<close> and
  \<^verbatim>\<open>getNFTMetadata\<close> return \<^verbatim>\<open>null\<close> and \<^verbatim>\<open>listTestsFromChain\<close> returns the empty list;
  so does the listing when an entry of the decoded array is \<^verbatim>\<open>null\<close> or \<^verbatim>\<open>undefined\<close>.
\<close>

theorem read_queries_never_throw:
  "(\<exists>v. snd (getTestFromChain s tid) = Inr v) \<and>
   (\<exists>v. snd (getNFTMetadata s tok) = Inr v) \<and>
   (\<exists>v. snd (listTestsFromChain s) = Inr v) \<and>
   (read_fails s \<longrightarrow>
      snd (getTestFromChain s tid) = Inr None \<and>
      snd (getNFTMetadata s tok) = Inr JNull \<and>
      snd (listTestsFromChain s) = Inr []) \<and>
   (snd (simulate_read s) = Inr (Some (JArr items)) \<and> (\<exists>x\<in>set items. x = JNull \<or> x = JUndefined) \<longrightarrow>
      snd (listTestsFromChain s) = Inr [])"
proof (intro conjI impI)
  show "\<exists>v. snd (getTestFromChain s tid) = Inr v" by (rule getTestFromChain_total)
  show "\<exists>v. snd (getNFTMetadata s tok) = Inr v" by (rule getNFTMetadata_total)
  show "\<exists>v. snd (listTestsFromChain s) = Inr v" by (rule listTestsFromChain_total)
  show "snd (getTestFromChain s tid) = Inr None" if "read_fails s"
    using that by (rule queries_default_on_failure)
  show "snd (getNFTMetadata s tok) = Inr JNull" if "read_fails s"
    using that by (rule queries_default_on_failure)
  show "snd (listTestsFromChain s) = Inr []" if "read_fails s"
    using that by (rule queries_default_on_failure)
  show "snd (listTestsFromChain s) = Inr []"
    if "snd (simulate_read s) = Inr (Some (JArr items)) \<and> (\<exists>x\<in>set items. x = JNull \<or> x = JUndefined)"
    using that list_with_null_entry [of s items] by simp
qed

text \<open>C10 on the five kinds of failure.\<close>

theorem read_queries_never_throw_witness:
  "snd (getTestFromChain (reading_sdk (Inl ''connection refused'')) ''t1'') = Inr None \<and>
   snd (getNFTMetadata (reading_sdk (Inr (SimulationError ''no such token''))) ''nft_t1_5'') = Inr JNull \<and>
   snd (listTestsFromChain (reading_sdk (Inr (SimulationOk None)))) = Inr [] \<and>
   snd (listTestsFromChain (reading_sdk (Inr (SimulationOk (Some (Inl ''bad value'')))))) = Inr [] \<and>
   snd (listTestsFromChain (reading_sdk (Inr (SimulationOk (Some (Inr (JArr [chain_entry, JNull]))))))) = Inr []"
proof -
  have f: "read_fails (reading_sdk (Inl ''connection refused''))"
    "read_fails (reading_sdk (Inr (SimulationError ''no such token'')))"
    "read_fails (reading_sdk (Inr (SimulationOk None)))"
    "read_fails (reading_sdk (Inr (SimulationOk (Some (Inl ''bad value'')))))"
    by (simp_all add: read_fails_def reading_sdk_def)
  have r: "snd (simulate_read (reading_sdk (Inr (SimulationOk (Some (Inr (JArr [chain_entry, JNull]))))))) =
      Inr (Some (JArr [chain_entry, JNull])) \<and> (\<exists>x\<in>set [chain_entry, JNull]. x = JNull \<or> x = JUndefined)"
    by (simp add: snd_simulate_read reading_sdk_def)
  note on_failure = read_queries_never_throw [THEN conjunct2, THEN conjunct2, THEN conjunct2,
      THEN conjunct1, THEN mp]
  note on_null = read_queries_never_throw [THEN conjunct2, THEN conjunct2, THEN conjunct2,
      THEN conjunct2, THEN mp]
  show ?thesis
  proof (intro conjI)
    show "snd (getTestFromChain (reading_sdk (Inl ''connection refused'')) ''t1'') = Inr None"
      using on_failure [OF f(1)] by (rule conjunct1)
    show "snd (getNFTMetadata (reading_sdk (Inr (SimulationError ''no such token''))) ''nft_t1_5'') = Inr JNull"
      using on_failure [OF f(2)] by simp
    show "snd (listTestsFromChain (reading_sdk (Inr (SimulationOk None)))) = Inr []"
      using on_failure [OF f(3)] by simp
    show "snd (listTestsFromChain (reading_sdk (Inr (SimulationOk (Some (Inl ''bad value'')))))) = Inr []"
      using on_failure [OF f(4)] by simp
    show "snd (listTestsFromChain (reading_sdk (Inr (SimulationOk (Some (Inr (JArr [chain_entry, JNull]))))))) = Inr []"
      using on_null [OF r] .
  qed
qed

lemma getTestFromChain_example:
  "snd (getTestFromChain (reading_sdk (Inr (SimulationOk (Some (Inr chain_entry))))) ''t1'') =
     Inr (Some \<lparr> testId = JStr ''t1'', creator = JStr ''GA'', metadataCid = JStr ''t1.json'',
                  createdAt = JNum 5 \<rparr>)"
  by (simp add: getTestFromChain_def snd_try_catch snd_bind snd_simulate_read reading_sdk_def
      chain_entry_def to_test_metadata_def get_prop_def return_eff_def)

section \<open>Badge metadata\<close>

lemma percentage_8_of_10: "percentage_string 8 10 = ''80.00%''"
  by (simp add: percentage_string_def toFixed2_def hundredths_def js_times_def js_divide_def
      to_double_def round_nearest_even_def bit_length.simps show_nat.simps digit_char_def Let_def)

lemma percentage_1_of_3: "percentage_string 1 3 = ''33.33%''"
  by (simp add: percentage_string_def toFixed2_def hundredths_def js_times_def js_divide_def
      to_double_def round_nearest_even_def bit_length.simps show_nat.simps digit_char_def Let_def)

lemma percentage_1_of_800: "percentage_string 1 800 = ''0.13%''"
  by (simp add: percentage_string_def toFixed2_def hundredths_def js_times_def js_divide_def
      to_double_def round_nearest_even_def bit_length.simps show_nat.simps digit_char_def Let_def)

lemma attribute_simps:
  "attribute (badge_metadata_of base issued tid w title score totalScore) ''Score'' =
     Some (if score \<noteq> None \<and> totalScore \<noteq> None
           then num_string score @ ''/'' @ num_string totalScore else ''Passed'')"
  "attribute (badge_metadata_of base issued tid w title score totalScore) ''Percentage'' =
     Some (case (score, totalScore) of
             (Some sc, Some tot) \<Rightarrow> if 0 < tot then percentage_string sc tot else ''N/A''
           | _ \<Rightarrow> ''N/A'')"
  "attribute (earlier_badge_metadata_of base issued tid w title score totalScore) ''Score'' =
     Some (if score \<noteq> None \<and> score \<noteq> Some 0
           then num_string score @ ''/'' @ num_string totalScore else ''Passed'')"
  "attribute (earlier_badge_metadata_of base issued tid w title score totalScore) ''Percentage'' = None"
  by (simp_all add: attribute_def badge_metadata_of_def earlier_badge_metadata_of_def)

text \<open>
  C5, as the code has it. With score 8 and total 10 the percentage attribute is
  \<^verbatim>\<open>80.00%\<close>; with the total 0 or absent it is \<^verbatim>\<open>N/A\<close>; with the score or the total
  absent the score attribute is \<^verbatim>\<open>Passed\<close> (and the percentage \<^verbatim>\<open>N/A\<close>); with both
  present, integers of magnitude below \<open>2^53\<close>, the score attribute is \<^verbatim>\<open>score/total\<close>
  and the percentage is the formatted quotient when the total is positive. The
  earlier revision of the generator has no percentage attribute and, for such
  integers, prints \<^verbatim>\<open>Passed\<close> for an absent or zero score.
\<close>

theorem metadata_score_and_percentage:
  "(score = Some 8 \<and> totalScore = Some 10 \<longrightarrow>
      attribute (badge_metadata_of base issued tid w title score totalScore) ''Percentage'' = Some ''80.00%'') \<and>
   (totalScore = None \<or> totalScore = Some 0 \<longrightarrow>
      attribute (badge_metadata_of base issued tid w title score totalScore) ''Percentage'' = Some ''N/A'') \<and>
   (score = None \<or> totalScore = None \<longrightarrow>
      attribute (badge_metadata_of base issued tid w title score totalScore) ''Score'' = Some ''Passed'' \<and>
      attribute (badge_metadata_of base issued tid w title score totalScore) ''Percentage'' = Some ''N/A'') \<and>
   (\<forall>sc tot. score = Some sc \<and> totalScore = Some tot \<and> \<bar>sc\<bar> < 2 ^ 53 \<and> \<bar>tot\<bar> < 2 ^ 53 \<longrightarrow>
      attribute (badge_metadata_of base issued tid w title score totalScore) ''Score'' =
        Some (show_int sc @ ''/'' @ show_int tot) \<and>
      attribute (badge_metadata_of base issued tid w title score totalScore) ''Percentage'' =
        Some (if 0 < tot then percentage_string sc tot else ''N/A'')) \<and>
   (safe_number score \<and> safe_number totalScore \<longrightarrow>
      attribute (earlier_badge_metadata_of base issued tid w title score totalScore) ''Score'' =
        Some (if score = None \<or> score = Some 0 then ''Passed''
              else num_string score @ ''/'' @ num_string totalScore)) \<and>
   attribute (earlier_badge_metadata_of base issued tid w title score totalScore) ''Percentage'' = None"
  by (auto simp: attribute_simps percentage_8_of_10 num_string_def split: option.splits)

text \<open>C5 on concrete scores.\<close>

theorem metadata_score_and_percentage_witness:
  "attribute (example_metadata (Some 8) (Some 10)) ''Percentage'' = Some ''80.00%'' \<and>
   attribute (example_metadata (Some 8) (Some 10)) ''Score'' = Some ''8/10'' \<and>
   attribute (example_metadata (Some 8) (Some 0)) ''Percentage'' = Some ''N/A'' \<and>
   attribute (example_metadata (Some 8) None) ''Percentage'' = Some ''N/A'' \<and>
   attribute (example_metadata None (Some 10)) ''Score'' = Some ''Passed'' \<and>
   attribute (example_metadata (Some 1) (Some 3)) ''Percentage'' = Some ''33.33%'' \<and>
   attribute (earlier_badge_metadata_of ''https://p.supabase.co'' ''2025-01-01T00:00:00.000Z''
                ''t1'' ''GA'' None (Some 8) (Some 10)) ''Score'' = Some ''8/10''"
proof -
  note u = metadata_score_and_percentage [where base = "''https://p.supabase.co''"
      and issued = "''2025-01-01T00:00:00.000Z''" and tid = "''t1''" and w = "''GA''"]
  note t = u [where title = "Some ''JavaScript Fundamentals''", folded example_metadata_def]
  have safe: "safe_number (Some 8) \<and> safe_number (Some 10)"
    by (simp add: safe_number_def safe_integer_def)
  have s: "show_int 8 = ''8''" "show_int 10 = ''10''"
    by (simp_all add: show_int_def show_nat.simps digit_char_def)
  from t [where score = "Some 8" and totalScore = "Some 10"]
  have a: "attribute (example_metadata (Some 8) (Some 10)) ''Percentage'' = Some ''80.00%''"
    and b: "attribute (example_metadata (Some 8) (Some 10)) ''Score'' = Some ''8/10''"
    by (simp_all add: s)
  from t [where score = "Some 8" and totalScore = "Some 0"]
  have c: "attribute (example_metadata (Some 8) (Some 0)) ''Percentage'' = Some ''N/A''" by simp
  from t [where score = "Some 8" and totalScore = "None"]
  have d: "attribute (example_metadata (Some 8) None) ''Percentage'' = Some ''N/A''" by simp
  from t [where score = "None" and totalScore = "Some 10"]
  have e: "attribute (example_metadata None (Some 10)) ''Score'' = Some ''Passed''" by simp
  from t [where score = "Some 1" and totalScore = "Some 3"]
  have f: "attribute (example_metadata (Some 1) (Some 3)) ''Percentage'' = Some ''33.33%''"
    by (simp add: percentage_1_of_3)
  have g: "attribute (earlier_badge_metadata_of ''https://p.supabase.co'' ''2025-01-01T00:00:00.000Z''
                ''t1'' ''GA'' None (Some 8) (Some 10)) ''Score'' = Some ''8/10''"
    using u [where title = None and score = "Some 8" and totalScore = "Some 10",
        THEN conjunct2, THEN conjunct2, THEN conjunct2, THEN conjunct2, THEN conjunct1,
        THEN mp, OF safe]
    by (simp add: num_string_def s)
  from a b c d e f g show ?thesis by (intro conjI)
qed

text \<open>
  C5 as stated fails: with score 5 and no total the score attribute is \<^verbatim>\<open>Passed\<close>, not
  a \<^verbatim>\<open>score/total\<close> text; in the earlier revision a score of 0 prints \<^verbatim>\<open>Passed\<close> too.
\<close>

theorem score_without_total_counterexample:
  "attribute (example_metadata (Some 5) None) ''Score'' = Some ''Passed'' \<and>
   attribute (example_metadata (Some 5) None) ''Score'' \<noteq> Some ''5/undefined'' \<and>
   attribute (earlier_badge_metadata_of ''https://p.supabase.co'' ''2025-01-01T00:00:00.000Z''
                ''t1'' ''GA'' None (Some 0) (Some 10)) ''Score'' = Some ''Passed''"
  by (simp add: example_metadata_def attribute_simps)

section \<open>Uploads\<close>

lemma generateBadgeMetadataUri_ok:
  "generateBadgeMetadataUri None base issued st tid w title score totalScore =
     (st((''stellar'', ''badge-metadata/'' @ fileName_of tid w) \<mapsto>
          badge_metadata_of base issued tid w title score totalScore),
      Inr (publicUrl base ''stellar'' (''badge-metadata/'' @ fileName_of tid w)))"
  by (simp add: generateBadgeMetadataUri_def storage_upload_def publicUrl_def Let_def)

text \<open>
  C8, with the store modelled from the spec and its callers from the code. An upload
  with \<open>overwrite = false\<close> to an existing key fails with \<open>Conflict\<close>, and so does the
  custom-badge upload, which leaves store and table as they were. An upload with
  \<open>overwrite = true\<close> succeeds, and so does the metadata upload, whose URL is the
  public URL of the key: the concatenation of base, bucket and key, the same after
  every repeated upload of that key, whatever the content.
\<close>

theorem object_store_upload_contract:
  "(st (bucket, path) \<noteq> None \<longrightarrow> storage_upload None st bucket path c False = Inl Conflict) \<and>
   storage_upload None st bucket path c True = Inr (st((bucket, path) \<mapsto> c)) \<and>
   (trim badgeName \<noteq> [] \<and>
    svgs (''stellar'', ''badges/'' @ userId @ ''_'' @ show_nat now @ ''.svg'') \<noteq> None \<longrightarrow>
      handleUploadBadge None dbError base now userId badgeName (Some svg) svgs rows =
        (svgs, rows, Upload_error Conflict)) \<and>
   generateBadgeMetadataUri None base issued blobs tid w title score totalScore =
     (blobs((''stellar'', ''badge-metadata/'' @ fileName_of tid w) \<mapsto>
          badge_metadata_of base issued tid w title score totalScore),
      Inr (publicUrl base ''stellar'' (''badge-metadata/'' @ fileName_of tid w))) \<and>
   snd (generateBadgeMetadataUri None base issued'
          (fst (generateBadgeMetadataUri None base issued blobs tid w title score totalScore))
          tid w title' score' totalScore') =
     snd (generateBadgeMetadataUri None base issued blobs tid w title score totalScore) \<and>
   publicUrl base bucket path = base @ ''/storage/v1/object/public/'' @ bucket @ ''/'' @ path"
  by (simp add: generateBadgeMetadataUri_ok handleUploadBadge_def)
    (auto simp: storage_upload_def publicUrl_def)

text \<open>C8 on a store that holds the key already, and on a repeated metadata upload.\<close>

theorem object_store_upload_contract_witness:
  "storage_upload None taken_store ''stellar'' ''badges/u1_5.svg'' ''<svg>new</svg>'' False = Inl Conflict \<and>
   handleUploadBadge None None ''https://p.supabase.co'' 5 ''u1'' '' Gold '' (Some ''<svg>new</svg>'')
       taken_store [] = (taken_store, [], Upload_error Conflict) \<and>
   snd (generateBadgeMetadataUri None ''https://p.supabase.co'' ''2025-01-02T00:00:00.000Z''
          (fst (generateBadgeMetadataUri None ''https://p.supabase.co'' ''2025-01-01T00:00:00.000Z''
                  Map.empty ''t1'' ''GA'' None (Some 8) (Some 10)))
          ''t1'' ''GA'' None (Some 9) (Some 10)) =
     Inr ''https://p.supabase.co/storage/v1/object/public/stellar/badge-metadata/t1_GA.json''"
proof -
  have k: "''badges/'' @ ''u1'' @ ''_'' @ show_nat 5 @ ''.svg'' = ''badges/u1_5.svg''"
    by (simp add: show_nat_small digit_char_def)
  have h: "taken_store (''stellar'', ''badges/u1_5.svg'') \<noteq> None"
    by (simp add: taken_store_def)
  have n: "trim '' Gold '' \<noteq> []"
    by (simp add: trim_def is_space_def)
  note c = object_store_upload_contract [where st = taken_store and bucket = "''stellar''"
      and path = "''badges/u1_5.svg''" and c = "''<svg>new</svg>''" and svgs = taken_store
      and badgeName = "'' Gold ''" and userId = "''u1''" and now = 5 and dbError = None
      and base = "''https://p.supabase.co''" and svg = "''<svg>new</svg>''" and rows = "[]"
      and issued = "''2025-01-01T00:00:00.000Z''" and issued' = "''2025-01-02T00:00:00.000Z''"
      and blobs = Map.empty and tid = "''t1''" and w = "''GA''" and title = None
      and score = "Some 8" and totalScore = "Some 10" and title' = None and score' = "Some 9"
      and totalScore' = "Some 10"]
  from c h have a: "storage_upload None taken_store ''stellar'' ''badges/u1_5.svg'' ''<svg>new</svg>'' False
      = Inl Conflict" by blast
  from c h n have b: "handleUploadBadge None None ''https://p.supabase.co'' 5 ''u1'' '' Gold ''
      (Some ''<svg>new</svg>'') taken_store [] = (taken_store, [], Upload_error Conflict)"
    unfolding k by blast
  note first_upload = c [THEN conjunct2, THEN conjunct2, THEN conjunct2, THEN conjunct1]
  note same_url = c [THEN conjunct2, THEN conjunct2, THEN conjunct2, THEN conjunct2, THEN conjunct1]
  have "snd (generateBadgeMetadataUri None ''https://p.supabase.co'' ''2025-01-01T00:00:00.000Z''
                  Map.empty ''t1'' ''GA'' None (Some 8) (Some 10)) =
     Inr (publicUrl ''https://p.supabase.co'' ''stellar'' (''badge-metadata/'' @ fileName_of ''t1'' ''GA''))"
    by (simp only: first_upload snd_conv)
  with same_url have d: "snd (generateBadgeMetadataUri None ''https://p.supabase.co'' ''2025-01-02T00:00:00.000Z''
          (fst (generateBadgeMetadataUri None ''https://p.supabase.co'' ''2025-01-01T00:00:00.000Z''
                  Map.empty ''t1'' ''GA'' None (Some 8) (Some 10)))
          ''t1'' ''GA'' None (Some 9) (Some 10)) =
     Inr (publicUrl ''https://p.supabase.co'' ''stellar'' (''badge-metadata/'' @ fileName_of ''t1'' ''GA''))"
    by (rule trans)
  have u: "publicUrl ''https://p.supabase.co'' ''stellar'' (''badge-metadata/'' @ fileName_of ''t1'' ''GA'')
      = ''https://p.supabase.co/storage/v1/object/public/stellar/badge-metadata/t1_GA.json''"
    by (simp add: publicUrl_def fileName_of_def)
  from a b d u show ?thesis by simp
qed

end
